theory Spec2Isabelle
  imports Main "HOL-Library.List_Lexorder" "HOL-Library.Char_ord"
begin

section \<open>JavaScript strings and the posix path module\<close>

text \<open>
  Strings are byte strings (\<open>char list\<close>); the paths of a package are ASCII, where the
  UTF-16 code unit order of JavaScript and the byte order agree.
\<close>

definition startsWith :: "string \<Rightarrow> string \<Rightarrow> bool" where
  "startsWith s p = (take (length p) s = p)"

definition endsWith :: "string \<Rightarrow> string \<Rightarrow> bool" where
  "endsWith s p = (length p \<le> length s \<and> drop (length s - length p) s = p)"

text \<open>\<open>s.replace(pat, rep)\<close> with a string pattern: the first occurrence only.\<close>

fun replaceFirst :: "string \<Rightarrow> string \<Rightarrow> string \<Rightarrow> string" where
  "replaceFirst pat rep [] = (if pat = [] then rep else [])"
| "replaceFirst pat rep (c # cs) =
     (if startsWith (c # cs) pat then rep @ drop (length pat) (c # cs)
      else c # replaceFirst pat rep cs)"

text \<open>\<open>s.replace(/suffix$/, rep)\<close> for a literal suffix.\<close>

definition replaceSuffix :: "string \<Rightarrow> string \<Rightarrow> string \<Rightarrow> string" where
  "replaceSuffix suf rep s =
     (if endsWith s suf then take (length s - length suf) s @ rep else s)"

text \<open>\<open>removeExt\<close>: \<open>path.replace(/\.[^.]+$/, '')\<close>. The pattern matches at the last dot,
  when at least one character follows it.\<close>

definition removeExt :: "string \<Rightarrow> string" where
  "removeExt path =
     (let r = rev path; ext = takeWhile (\<lambda>c. c \<noteq> CHR ''.'') r
      in if length ext < length r \<and> ext \<noteq> [] then rev (drop (Suc (length ext)) r) else path)"

text \<open>\<open>path.match(/\.[^.]+$/)?.[0] || '.js'\<close>: the extension that \<open>removeExt\<close> removes.\<close>

definition originalExtension :: "string \<Rightarrow> string" where
  "originalExtension path =
     (let r = rev path; ext = takeWhile (\<lambda>c. c \<noteq> CHR ''.'') r
      in if length ext < length r \<and> ext \<noteq> [] then CHR ''.'' # rev ext else ''.js'')"

text \<open>\<open>normalizePath\<close>: \<open>filePath.replace(/\\/g, '/')\<close>.\<close>

definition normalizePath :: "string \<Rightarrow> string" where
  "normalizePath filePath = map (\<lambda>c. if c = CHR 0x5C then CHR ''/'' else c) filePath"

text \<open>Splitting at \<open>/\<close> and joining with \<open>/\<close>.\<close>

fun splitSlash :: "string \<Rightarrow> string list" where
  "splitSlash [] = [[]]"
| "splitSlash (c # cs) =
     (if c = CHR ''/'' then [] # splitSlash cs
      else (case splitSlash cs of [] \<Rightarrow> [[c]] | s # ss \<Rightarrow> (c # s) # ss))"

fun joinSlash :: "string list \<Rightarrow> string" where
  "joinSlash [] = []"
| "joinSlash [s] = s"
| "joinSlash (s # t # ss) = s @ ''/'' @ joinSlash (t # ss)"

text \<open>
  \<open>normalizeString\<close> of Node's \<open>path\<close> module, on the segments of the path: empty and \<open>.\<close>
  segments are dropped, \<open>..\<close> removes the segment before it when there is one that is not
  itself \<open>..\<close>, and is kept only when the path may rise above its root. The stack is held
  in reverse.
\<close>

fun normalizeSegs :: "bool \<Rightarrow> string list \<Rightarrow> string list \<Rightarrow> string list" where
  "normalizeSegs allowAboveRoot st [] = rev st"
| "normalizeSegs allowAboveRoot st (s # ss) =
     (if s = [] \<or> s = ''.'' then normalizeSegs allowAboveRoot st ss
      else if s = ''..'' then
        (case st of
           [] \<Rightarrow> normalizeSegs allowAboveRoot (if allowAboveRoot then [''..''] else []) ss
         | t # ts \<Rightarrow>
             if t = ''..'' then
               normalizeSegs allowAboveRoot (if allowAboveRoot then ''..'' # st else st) ss
             else normalizeSegs allowAboveRoot ts ss)
      else normalizeSegs allowAboveRoot (s # st) ss)"

definition normalize :: "string \<Rightarrow> string" where
  "normalize path =
     (if path = [] then ''.''
      else
        let isAbsolute = (hd path = CHR ''/'');
            trailingSeparator = (last path = CHR ''/'');
            p = joinSlash (normalizeSegs (\<not> isAbsolute) [] (splitSlash path))
        in if p = [] then (if isAbsolute then ''/'' else if trailingSeparator then ''./'' else ''.'')
           else (if isAbsolute then ''/'' else []) @ p @ (if trailingSeparator then ''/'' else []))"

text \<open>\<open>path.join(...args)\<close>: the non-empty arguments joined with \<open>/\<close>, then normalized.\<close>

definition join :: "string list \<Rightarrow> string" where
  "join args =
     (case filter (\<lambda>a. a \<noteq> []) args of
        [] \<Rightarrow> ''.''
      | a # as \<Rightarrow> normalize (joinSlash (a # as)))"

text \<open>\<open>ensureRelativePath\<close>: the path made to start with \<open>./\<close>.\<close>

definition ensureRelativePath :: "string \<Rightarrow> string" where
  "ensureRelativePath path =
     (if path = [] then path
      else if startsWith path ''./'' then path
      else if startsWith path ''/'' then ''.'' @ path
      else ''./'' @ path)"

section \<open>Configuration and the files of a package\<close>

text \<open>
  The configuration as the code reads it through \<open>getConfig()?.a?.b\<close>: an absent value is
  \<open>None\<close>. \<open>matchesAnyPattern\<close> delegates to the minimatch library; the two pattern lists
  enter as the predicates they decide on a path relative to the source directory.
\<close>

datatype fmt = FFalse | FString string | FUndefined

record config =
  directories_source :: "string option"
  directories_cjs :: "string option"
  directories_esm :: "string option"
  formats :: "(fmt \<times> fmt) option"
  files_extensions :: "string list option"
  ignoreBuildPaths :: "string \<Rightarrow> bool"
  ignoreExportPaths :: "string \<Rightarrow> bool"

text \<open>\<open>getConfig()?.directories?.source || 'src'\<close>: an empty string is falsy.\<close>

definition orDefault :: "string option \<Rightarrow> string \<Rightarrow> string" where
  "orDefault v d = (case v of None \<Rightarrow> d | Some s \<Rightarrow> if s = [] then d else s)"

definition getSourceDir :: "config \<Rightarrow> string" where
  "getSourceDir cfg = orDefault (directories_source cfg) ''src''"

definition getESMDir :: "config \<Rightarrow> string" where
  "getESMDir cfg = orDefault (directories_esm cfg) ''esm''"

definition getCJSDir :: "config \<Rightarrow> string" where
  "getCJSDir cfg = orDefault (directories_cjs cfg) ''cjs''"

text \<open>
  The directory of the package (\<open>rootPath\<close>) is a tree of named entries; \<open>readdirSync\<close>
  lists the names of a directory in the order the entries are held.
\<close>

datatype node = File | Dir "(string \<times> node) list"

fun lookupSegs :: "node \<Rightarrow> string list \<Rightarrow> node option" where
  "lookupSegs n [] = Some n"
| "lookupSegs File (s # ss) = None"
| "lookupSegs (Dir es) (s # ss) =
     (case map_of es s of None \<Rightarrow> None | Some n \<Rightarrow> lookupSegs n ss)"

text \<open>
  The entry at \<open>join(rootPath, rel)\<close>, for \<open>rel\<close> already joined: the path is looked up from
  the package directory. A path that leaves the package directory is outside the model
  and has no entry.
\<close>

definition lookupRel :: "(string \<times> node) list \<Rightarrow> string \<Rightarrow> node option" where
  "lookupRel root rel =
     (let segs = filter (\<lambda>s. s \<noteq> [] \<and> s \<noteq> ''.'') (splitSlash rel)
      in if ''..'' \<in> set segs then None else lookupSegs (Dir root) segs)"

text \<open>\<open>existsSync(join(rootPath, rel))\<close>; a file is not found under a name that ends in a
  slash.\<close>

definition existsRel :: "(string \<times> node) list \<Rightarrow> string \<Rightarrow> bool" where
  "existsRel root rel =
     (case lookupRel root rel of
        None \<Rightarrow> False
      | Some File \<Rightarrow> rel = [] \<or> last rel \<noteq> CHR ''/''
      | Some (Dir es) \<Rightarrow> True)"

definition defaultExtensions :: "string list" where
  "defaultExtensions = [''.js'', ''.jsx'', ''.ts'', ''.tsx'', ''.cjs'', ''.mjs'', ''.cts'', ''.mts'']"

text \<open>\<open>hasTypesFile(rootPath, relativePath)\<close>.\<close>

definition hasTypesFile :: "(string \<times> node) list \<Rightarrow> string \<Rightarrow> bool" where
  "hasTypesFile root relativePath = existsRel root (join [relativePath @ ''.d.ts''])"

text \<open>\<open>getActualFileExtension\<close>: the first extension of its list whose file exists. The list
  is the configured one; the default list of this function also holds \<open>.json\<close>.\<close>

definition resolverExtensions :: "config \<Rightarrow> string list" where
  "resolverExtensions cfg =
     (case files_extensions cfg of Some es \<Rightarrow> es | None \<Rightarrow> defaultExtensions @ [''.json''])"

definition getActualFileExtension ::
  "config \<Rightarrow> (string \<times> node) list \<Rightarrow> string \<Rightarrow> bool \<Rightarrow> string" where
  "getActualFileExtension cfg root relativePath isSource =
     (let baseDir = (if isSource then getSourceDir cfg else []);
          extensions = resolverExtensions cfg
      in case find (\<lambda>ext. existsRel root
                     (if isSource then join [baseDir, relativePath @ ext]
                      else join [relativePath @ ext])) extensions of
           Some ext \<Rightarrow> ext
         | None \<Rightarrow> ''.js'')"

text \<open>\<open>getIndexFileExtension(sourcePath, prod)\<close>, with \<open>sourcePath = join(rootPath, sourceDir)\<close>.\<close>

definition getIndexFileExtension ::
  "config \<Rightarrow> (string \<times> node) list \<Rightarrow> bool \<Rightarrow> string" where
  "getIndexFileExtension cfg root isProd =
     (if isProd then ''.ts''
      else
        let possibleExtensions = (case files_extensions cfg of
                                    Some es \<Rightarrow> es | None \<Rightarrow> defaultExtensions)
        in case find (\<lambda>ext. existsRel root (join [getSourceDir cfg, ''index'' @ ext]))
                  possibleExtensions of
             Some ext \<Rightarrow> ext
           | None \<Rightarrow> ''.js'')"

section \<open>Path Converter\<close>

text \<open>
  \<open>path.replace(new RegExp(`^\\.?/?${dir}/`), '')\<close>, for a directory name without regular
  expression metacharacters: an optional dot, an optional slash, the name and a slash are
  removed from the front, the longer alternatives first as the greedy match takes them.
\<close>

definition stripDirPrefix :: "string \<Rightarrow> string \<Rightarrow> string" where
  "stripDirPrefix dir path =
     (case find (startsWith path) [''./'' @ dir @ ''/'', ''.'' @ dir @ ''/'', ''/'' @ dir @ ''/'', dir @ ''/''] of
        Some p \<Rightarrow> drop (length p) path
      | None \<Rightarrow> path)"

text \<open>\<open>converted.replace(/\.(m?[jt]s|[cm][jt]s)$/, '.cjs')\<close>.\<close>

definition replaceCjsExt :: "string \<Rightarrow> string" where
  "replaceCjsExt s =
     (case find (endsWith s) [''.js'', ''.ts'', ''.mjs'', ''.mts'', ''.cjs'', ''.cts''] of
        Some e \<Rightarrow> take (length s - length e) s @ ''.cjs''
      | None \<Rightarrow> s)"

text \<open>\<open>converted.replace(/\.(m?ts|[cm]ts)$/, '.js')\<close>.\<close>

definition replaceEsmExt :: "string \<Rightarrow> string" where
  "replaceEsmExt s =
     (case find (endsWith s) [''.ts'', ''.mts'', ''.cts''] of
        Some e \<Rightarrow> take (length s - length e) s @ ''.js''
      | None \<Rightarrow> s)"

text \<open>The enabled output formats: \<open>'cjs' in builds\<close> is \<open>b_cjs builds \<noteq> None\<close>.\<close>

record builds =
  b_cjs :: "string option"
  b_esm :: "string option"

definition convertPathToProduction :: "config \<Rightarrow> string \<Rightarrow> builds \<Rightarrow> string" where
  "convertPathToProduction cfg inputPath blds =
     (if inputPath = [] then inputPath
      else
        let sourceDir = getSourceDir cfg;
            cjsDir = getCJSDir cfg;
            esmDir = getESMDir cfg;
            path = ensureRelativePath inputPath;
            sourcePrefixes = [''./'' @ sourceDir @ ''/'', sourceDir @ ''/''];
            isSourcePath = list_ex (\<lambda>prefix.
                path = ''./'' @ prefix \<or>
                startsWith path (''./'' @ sourceDir @ ''/'') \<or>
                startsWith inputPath (sourceDir @ ''/'') \<or>
                startsWith inputPath (''./'' @ sourceDir @ ''/'')) sourcePrefixes
        in if \<not> isSourcePath then path
           else
             let relativePath = stripDirPrefix sourceDir path
             in if b_cjs blds \<noteq> None then replaceCjsExt (''./'' @ cjsDir @ ''/'' @ relativePath)
                else if b_esm blds \<noteq> None then replaceEsmExt (''./'' @ esmDir @ ''/'' @ relativePath)
                else path)"

definition convertPathToDevelopment ::
  "config \<Rightarrow> (string \<times> node) list \<Rightarrow> string \<Rightarrow> string" where
  "convertPathToDevelopment cfg root inputPath =
     (if inputPath = [] then inputPath
      else
        let sourceDir = getSourceDir cfg;
            cjsDir = getCJSDir cfg;
            esmDir = getESMDir cfg;
            path = ensureRelativePath inputPath
        in if startsWith path (''./'' @ cjsDir @ ''/'') \<or> startsWith inputPath (cjsDir @ ''/'') then
             let relativePath = replaceSuffix ''.cjs'' [] (stripDirPrefix cjsDir path);
                 actualExt = getActualFileExtension cfg root relativePath True
             in ''./'' @ sourceDir @ ''/'' @ relativePath @ actualExt
           else if startsWith path (''./'' @ esmDir @ ''/'') \<or> startsWith inputPath (esmDir @ ''/'') then
             let relativePath = replaceSuffix ''.js'' [] (stripDirPrefix esmDir path);
                 actualExt = getActualFileExtension cfg root relativePath True
             in ''./'' @ sourceDir @ ''/'' @ relativePath @ actualExt
           else path)"

text \<open>
  The default build-ignore patterns \<open>**/*.test.*\<close>, \<open>**/*.spec.*\<close> and \<open>**/__tests__/**\<close> as
  \<open>matchesAnyPattern\<close> decides them, by \<open>minimatch(filename, pattern)\<close> without options: a
  star stands for any characters of one name, but not for a leading dot; two stars stand
  for any number of directories whose names do not begin with a dot, and at the end of a
  pattern for at least one name.
\<close>

fun occursIn :: "string \<Rightarrow> string \<Rightarrow> bool" where
  "occursIn t [] = (t = [])"
| "occursIn t (c # s) = (startsWith (c # s) t \<or> occursIn t s)"

definition visibleName :: "string \<Rightarrow> bool" where
  "visibleName s = (s \<noteq> [] \<and> hd s \<noteq> CHR ''.'')"

definition defaultIgnoreBuildPaths :: "string \<Rightarrow> bool" where
  "defaultIgnoreBuildPaths p =
     (let segs = splitSlash p
      in list_all visibleName segs
         \<and> (occursIn ''.test.'' (last segs) \<or> occursIn ''.spec.'' (last segs)
              \<or> ''__tests__'' \<in> set (butlast segs)))"

text \<open>
  \<open>libsyncConfigSchema.parse({})\<close>, the configuration that \<open>initConfig\<close> sets for a package
  without a configuration file: every value is present. The commands call \<open>initConfig\<close>
  before anything else.
\<close>

definition defaultConfig :: config where
  "defaultConfig = \<lparr> directories_source = Some ''src'', directories_cjs = Some ''cjs'',
     directories_esm = Some ''esm'',
     formats = Some (FString ''cjs'', FString ''esm''),
     files_extensions = Some [''.js'', ''.jsx'', ''.ts'', ''.tsx'', ''.cjs'', ''.mjs'', ''.cts'', ''.mts'', ''.json''],
     ignoreBuildPaths = defaultIgnoreBuildPaths, ignoreExportPaths = (\<lambda>p. False) \<rparr>"

section \<open>JavaScript objects\<close>

text \<open>
  An object is the list of its own properties in enumeration order: the keys that are
  array indices first, in ascending numeric order, then the other keys in the order of
  their creation.
\<close>

type_synonym 'a obj = "(string \<times> 'a) list"

definition isDigit :: "char \<Rightarrow> bool" where
  "isDigit c = (c \<in> set ''0123456789'')"

text \<open>The numeric order of two decimal numerals without leading zeros.\<close>

definition indexLess :: "string \<Rightarrow> string \<Rightarrow> bool" where
  "indexLess a b = (length a < length b \<or> (length a = length b \<and> a < b))"

text \<open>An array index is the canonical numeral of an integer below \<open>2\<^sup>3\<^sup>2 - 1\<close>.\<close>

definition isArrayIndex :: "string \<Rightarrow> bool" where
  "isArrayIndex k = (k \<noteq> [] \<and> list_all isDigit k \<and> (k = ''0'' \<or> hd k \<noteq> CHR ''0'')
      \<and> indexLess k ''4294967295'')"

fun insertIndex :: "string \<Rightarrow> 'a \<Rightarrow> 'a obj \<Rightarrow> 'a obj" where
  "insertIndex k v [] = [(k, v)]"
| "insertIndex k v ((k', v') # ps) =
     (if isArrayIndex k' \<and> indexLess k' k then (k', v') # insertIndex k v ps
      else (k, v) # (k', v') # ps)"

definition objHas :: "'a obj \<Rightarrow> string \<Rightarrow> bool" where
  "objHas ob k = (k \<in> set (map fst ob))"

definition objGet :: "'a obj \<Rightarrow> string \<Rightarrow> 'a option" where
  "objGet ob k = map_of ob k"

text \<open>\<open>ob[k] = v\<close>: an existing property keeps its place.\<close>

definition objSet :: "string \<Rightarrow> 'a \<Rightarrow> 'a obj \<Rightarrow> 'a obj" where
  "objSet k v ob =
     (if objHas ob k then map (\<lambda>(k', v'). if k' = k then (k', v) else (k', v')) ob
      else if isArrayIndex k then insertIndex k v ob
      else ob @ [(k, v)])"

text \<open>\<open>delete ob[k]\<close>.\<close>

definition objDelete :: "string \<Rightarrow> 'a obj \<Rightarrow> 'a obj" where
  "objDelete k ob = filter (\<lambda>(k', v'). k' \<noteq> k) ob"

text \<open>\<open>{ ...a, ...b }\<close>.\<close>

definition objSpread :: "'a obj \<Rightarrow> 'a obj \<Rightarrow> 'a obj" where
  "objSpread a b = fold (\<lambda>(k, v) acc. objSet k v acc) b a"

section \<open>Source Tree Scanner\<close>

text \<open>The errors of the program by class; \<open>OtherError\<close> is any error that is neither a
  \<open>ConfigurationError\<close> nor a \<open>PackageError\<close>.\<close>

datatype error = ConfigurationError string | PackageError string | OtherError string

definition isDirectory :: "node \<Rightarrow> bool" where
  "isDirectory n = (case n of Dir es \<Rightarrow> True | File \<Rightarrow> False)"

text \<open>
  \<open>new RegExp(`(${extensions.map((e) => e.replace('.', '\\.')).join('|')})$`).test(filename)\<close>,
  for extensions that are a dot and letters: the name ends with one of them. The pattern
  built from an empty list matches every name.
\<close>

definition extensionMatches :: "config \<Rightarrow> string \<Rightarrow> bool" where
  "extensionMatches cfg filename =
     (let extensions = (case files_extensions cfg of
                          Some es \<Rightarrow> es | None \<Rightarrow> defaultExtensions)
      in extensions = [] \<or> list_ex (endsWith filename) extensions)"

definition pathToMatch :: "string \<Rightarrow> string \<Rightarrow> string" where
  "pathToMatch relativePath filename =
     (if relativePath \<noteq> [] then relativePath @ ''/'' @ filename else filename)"

text \<open>\<open>shouldBuild(rootPath, filename, relativePath)\<close>; the entry at
  \<open>join(rootPath, filename)\<close> is passed along with its name.\<close>

definition shouldBuild :: "config \<Rightarrow> string \<Rightarrow> node \<Rightarrow> string \<Rightarrow> bool" where
  "shouldBuild cfg filename n relativePath =
     (if ignoreBuildPaths cfg (pathToMatch relativePath filename) then False
      else if isDirectory n then True
      else extensionMatches cfg filename)"

definition shouldExport :: "config \<Rightarrow> string \<Rightarrow> node \<Rightarrow> string \<Rightarrow> bool" where
  "shouldExport cfg filename n relativePath =
     (if ignoreBuildPaths cfg (pathToMatch relativePath filename) then False
      else if ignoreExportPaths cfg (pathToMatch relativePath filename) then False
      else if isDirectory n then True
      else extensionMatches cfg filename)"

text \<open>\<open>/^index\.(ts|js|cjs|mjs)$/.test(file)\<close>.\<close>

definition isIndexName :: "string \<Rightarrow> bool" where
  "isIndexName file = (file \<in> set [''index.ts'', ''index.js'', ''index.cjs'', ''index.mjs''])"

text \<open>The size of a directory listing, for the termination of the scanner.\<close>

definition entriesSize :: "(string \<times> node) list \<Rightarrow> nat" where
  "entriesSize es = size_list (\<lambda>(name, n). size n) es"

lemma entriesSize_insort_key:
  "entriesSize (insort_key f x xs) = entriesSize (x # xs)"
  by (induction xs) (auto simp: entriesSize_def)

lemma entriesSize_sort_key: "entriesSize (sort_key f xs) = entriesSize xs"
proof (induction xs)
  case Nil
  then show ?case by (simp add: sort_key_def)
next
  case (Cons x xs)
  have "sort_key f (x # xs) = insort_key f x (sort_key f xs)"
    by (simp add: sort_key_def)
  then show ?case
    using Cons by (simp add: entriesSize_insort_key) (simp add: entriesSize_def)
qed

lemma entriesSize_filter: "entriesSize (filter P xs) \<le> entriesSize xs"
  by (induction xs) (auto simp: entriesSize_def)

lemma entriesSize_scan: "entriesSize (sort_key f (filter P xs)) \<le> entriesSize xs"
  by (simp add: entriesSize_sort_key entriesSize_filter)

lemma entriesSize_Dir: "entriesSize children < size (Dir children)"
proof -
  have "size_list (\<lambda>(name, n). size n) children \<le> size_list (size_prod (\<lambda>x. 0) size) children"
    by (induction children) auto
  then show ?thesis by (simp add: entriesSize_def)
qed

lemma entriesSize_Cons: "entriesSize ((name, n) # rest) = Suc (size n + entriesSize rest)"
  by (simp add: entriesSize_def)

text \<open>
  \<open>getAllBuildFiles(sourcePath, prefix)\<close>. The listing of \<open>sourcePath\<close> is passed with it, and
  \<open>pureCLI\<close> is \<open>isPureCLIPackage(join(sourcePath, '..'))\<close>, read only when the prefix is
  empty. \<open>buildReduce\<close> is the callback of \<open>files.reduce\<close> run over the list.
\<close>

function getAllBuildFiles ::
    "config \<Rightarrow> bool \<Rightarrow> string \<Rightarrow> string \<Rightarrow> (string \<times> node) list \<Rightarrow> error + string obj"
  and buildReduce ::
    "config \<Rightarrow> bool \<Rightarrow> string \<Rightarrow> string \<Rightarrow> (string \<times> node) list \<Rightarrow> string obj \<Rightarrow> error + string obj"
where
  "getAllBuildFiles cfg pureCLI sourcePath prefix entries =
     (if prefix = [] \<and> pureCLI then
        let indexPath = join [sourcePath, ''index.ts'']
        in if map_of entries ''index.ts'' = None \<and> map_of entries ''index.js'' = None
           then Inl (ConfigurationError ''Pure CLI package missing index file'')
           else Inr [(''index'', if map_of entries ''index.ts'' \<noteq> None then indexPath
                                 else join [sourcePath, ''index.js''])]
      else
        let files = sort_key fst (filter (\<lambda>(filename, n). shouldBuild cfg filename n prefix) entries)
        in if files = [] \<and> prefix = [] then Inl (ConfigurationError ''No valid source files found'')
           else if files = [] then Inr []
           else buildReduce cfg pureCLI sourcePath prefix files [])"
| "buildReduce cfg pureCLI sourcePath prefix [] acc = Inr acc"
| "buildReduce cfg pureCLI sourcePath prefix ((filename, File) # rest) acc =
     (let path = join [sourcePath, filename];
          key = removeExt (normalizePath (join [prefix, filename]))
      in buildReduce cfg pureCLI sourcePath prefix rest (objSet key (normalizePath path) acc))"
| "buildReduce cfg pureCLI sourcePath prefix ((filename, Dir children) # rest) acc =
     (let path = join [sourcePath, filename]
      in case getAllBuildFiles cfg pureCLI path (join [prefix, filename]) children of
           Inl e \<Rightarrow> Inl e
         | Inr childFiles \<Rightarrow>
             buildReduce cfg pureCLI sourcePath prefix rest (objSpread childFiles acc))"
  by pat_completeness auto
termination
proof (relation "measure (\<lambda>x. case x of
          Inl (cfg, p, sp, pre, entries) \<Rightarrow> 2 * entriesSize entries + 1
        | Inr (cfg, p, sp, pre, files, acc) \<Rightarrow> 2 * entriesSize files)", goal_cases)
  case 1
  then show ?case by simp
next
  case (2 cfg pureCLI sourcePath prefix entries x)
  then show ?case by (simp add: entriesSize_scan le_imp_less_Suc)
next
  case (3 cfg pureCLI sourcePath prefix filename rest acc x xa)
  then show ?case by (simp add: entriesSize_Cons)
next
  case (4 cfg pureCLI sourcePath prefix filename children rest acc x)
  then show ?case using entriesSize_Dir [of children] by (simp add: entriesSize_Cons)
next
  case (5 cfg pureCLI sourcePath prefix filename children rest acc x xa)
  then show ?case by (simp add: entriesSize_Cons)
qed

text \<open>
  \<open>getPublicFiles(sourcePath, prefix)\<close>, in the same form. \<open>hasIndex\<close> and \<open>indexFileName\<close>
  are read from the unfiltered, unsorted \<open>readdirSync(path)\<close> of the directory.
\<close>

definition indexFileOf :: "(string \<times> node) list \<Rightarrow> string option" where
  "indexFileOf children = find isIndexName (map fst children)"

function getPublicFiles ::
    "config \<Rightarrow> bool \<Rightarrow> string \<Rightarrow> string \<Rightarrow> (string \<times> node) list \<Rightarrow> error + string obj"
  and publicReduce ::
    "config \<Rightarrow> bool \<Rightarrow> string \<Rightarrow> string \<Rightarrow> (string \<times> node) list \<Rightarrow> string obj \<Rightarrow> error + string obj"
where
  "getPublicFiles cfg pureCLI sourcePath prefix entries =
     (if prefix = [] \<and> pureCLI then
        let indexPath = join [sourcePath, ''index.ts'']
        in if map_of entries ''index.ts'' = None \<and> map_of entries ''index.js'' = None
           then Inl (ConfigurationError ''Pure CLI package missing index file'')
           else Inr [(''index'', if map_of entries ''index.ts'' \<noteq> None then indexPath
                                 else join [sourcePath, ''index.js''])]
      else
        let files = sort_key fst (filter (\<lambda>(filename, n). shouldExport cfg filename n prefix) entries)
        in if files = [] \<and> prefix = [] then Inl (ConfigurationError ''No valid source files found'')
           else if files = [] then Inr []
           else publicReduce cfg pureCLI sourcePath prefix files [])"
| "publicReduce cfg pureCLI sourcePath prefix [] acc = Inr acc"
| "publicReduce cfg pureCLI sourcePath prefix ((filename, File) # rest) acc =
     (let path = join [sourcePath, filename];
          key = removeExt (normalizePath (join [prefix, filename]))
      in publicReduce cfg pureCLI sourcePath prefix rest (objSet key (normalizePath path) acc))"
| "publicReduce cfg pureCLI sourcePath prefix ((filename, Dir children) # rest) acc =
     (let path = join [sourcePath, filename]
      in case getPublicFiles cfg pureCLI path (join [prefix, filename]) children of
           Inl e \<Rightarrow> Inl e
         | Inr childFiles \<Rightarrow>
             let hasIndex = list_ex isIndexName (map fst children);
                 result = objSpread acc childFiles;
                 result' =
                   (if hasIndex then
                      (case indexFileOf children of
                         Some indexFileName \<Rightarrow>
                           let indexFile = join [path, indexFileName];
                               dirKey = normalizePath (join [prefix, filename]);
                               indexKey = normalizePath (join [prefix, filename, ''index''])
                           in objDelete indexKey (objSet dirKey (normalizePath indexFile) result)
                       | None \<Rightarrow> result)
                    else result)
             in publicReduce cfg pureCLI sourcePath prefix rest result')"
  by pat_completeness auto
termination
proof (relation "measure (\<lambda>x. case x of
          Inl (cfg, p, sp, pre, entries) \<Rightarrow> 2 * entriesSize entries + 1
        | Inr (cfg, p, sp, pre, files, acc) \<Rightarrow> 2 * entriesSize files)", goal_cases)
  case 1
  then show ?case by simp
next
  case (2 cfg pureCLI sourcePath prefix entries x)
  then show ?case by (simp add: entriesSize_scan le_imp_less_Suc)
next
  case (3 cfg pureCLI sourcePath prefix filename rest acc x xa)
  then show ?case by (simp add: entriesSize_Cons)
next
  case (4 cfg pureCLI sourcePath prefix filename children rest acc x)
  then show ?case using entriesSize_Dir [of children] by (simp add: entriesSize_Cons)
next
  case 5
  then show ?case by (simp add: entriesSize_Cons)
qed

text \<open>
  A source tree with every listing sorted by name. Two trees with the same entries, listed
  in any order, have the same sorted tree.
\<close>

fun sortListing :: "node \<Rightarrow> node" where
  "sortListing File = File"
| "sortListing (Dir es) = Dir (sort_key fst (map (\<lambda>(name, n). (name, sortListing n)) es))"

definition sortEntries :: "(string \<times> node) list \<Rightarrow> (string \<times> node) list" where
  "sortEntries es = sort_key fst (map (\<lambda>(name, n). (name, sortListing n)) es)"


section \<open>The manifest\<close>

text \<open>
  The values of \<open>JSON.parse\<close>. The text of a manifest file is held as the value it parses
  to and whether it is laid out exactly as \<open>JSON.stringify(pkg, null, 2)\<close> followed by a
  newline writes that value; a text that is not JSON is \<open>NotJson\<close>. Two texts are equal when
  both components are.
\<close>

datatype json = JString string | JNumber int | JBool bool | JNull
  | JArray "json list" | JObject "(string \<times> json) list"

datatype fileText = JsonText bool json | NotJson

text \<open>
  A package directory: the text of its \<open>package.json\<close>, its entries, and the texts of the
  \<open>package.json\<close> files of other directories, by the path of the directory. The last are
  read by \<open>isPureCLIPackage(join(sourcePath, '..'))\<close>, which looks in the parent of the
  source directory.
\<close>

record package =
  manifest :: "fileText option"
  files :: "(string \<times> node) list"
  otherManifests :: "(string \<times> fileText) list"

datatype mode = Development | Production | ProductionTypes

text \<open>The truth value of a property that may be absent.\<close>

definition truthy :: "json option \<Rightarrow> bool" where
  "truthy v = (case v of
       None \<Rightarrow> False
     | Some (JString s) \<Rightarrow> s \<noteq> []
     | Some (JNumber n) \<Rightarrow> n \<noteq> 0
     | Some (JBool b) \<Rightarrow> b
     | Some JNull \<Rightarrow> False
     | Some (JArray xs) \<Rightarrow> True
     | Some (JObject fs) \<Rightarrow> True)"

text \<open>\<open>packageJsonSchema\<close>: the checks of the schema on the properties it names.\<close>

definition optString :: "json obj \<Rightarrow> string \<Rightarrow> bool" where
  "optString fs k = (case objGet fs k of None \<Rightarrow> True | Some (JString s) \<Rightarrow> True | Some v \<Rightarrow> False)"

definition isJString :: "json \<Rightarrow> bool" where
  "isJString v = (case v of JString s \<Rightarrow> True | _ \<Rightarrow> False)"

definition optRecordOfStrings :: "json obj \<Rightarrow> string \<Rightarrow> bool" where
  "optRecordOfStrings fs k =
     (case objGet fs k of
        None \<Rightarrow> True
      | Some (JObject es) \<Rightarrow> list_all (\<lambda>(k', v). isJString v) es
      | Some v \<Rightarrow> False)"

definition packageJsonSchema :: "json \<Rightarrow> bool" where
  "packageJsonSchema j =
     (case j of
        JObject fs \<Rightarrow>
          (case objGet fs ''name'' of Some (JString n) \<Rightarrow> n \<noteq> [] | _ \<Rightarrow> False)
          \<and> optString fs ''version''
          \<and> (case objGet fs ''private'' of None \<Rightarrow> True | Some (JBool b) \<Rightarrow> True | Some v \<Rightarrow> False)
          \<and> optString fs ''main''
          \<and> optString fs ''module''
          \<and> (optString fs ''bin'' \<or> optRecordOfStrings fs ''bin'')
          \<and> (case objGet fs ''exports'' of None \<Rightarrow> True | Some (JObject es) \<Rightarrow> True | Some v \<Rightarrow> False)
          \<and> optRecordOfStrings fs ''dependencies''
          \<and> optRecordOfStrings fs ''devDependencies''
          \<and> optRecordOfStrings fs ''peerDependencies''
          \<and> optRecordOfStrings fs ''scripts''
          \<and> (case objGet fs ''type'' of
                None \<Rightarrow> True
              | Some (JString t) \<Rightarrow> t = ''module'' \<or> t = ''commonjs''
              | Some v \<Rightarrow> False)
          \<and> optString fs ''types''
          \<and> optString fs ''typings''
      | _ \<Rightarrow> False)"

text \<open>\<open>readPackageJson(rootPath)\<close>: the properties of the validated manifest.\<close>

definition readPackageJson :: "package \<Rightarrow> error + json obj" where
  "readPackageJson pk =
     (case manifest pk of
        None \<Rightarrow> Inl (PackageError ''File not found'')
      | Some NotJson \<Rightarrow> Inl (PackageError ''Invalid JSON syntax'')
      | Some (JsonText c j) \<Rightarrow>
          if packageJsonSchema j then (case j of JObject fs \<Rightarrow> Inr fs | _ \<Rightarrow> Inr [])
          else Inl (ConfigurationError ''Invalid package.json''))"

text \<open>\<open>isPureCLIPackage(rootPath)\<close>: a manifest that cannot be read is not one.\<close>

definition isPureCLIPackage :: "package \<Rightarrow> bool" where
  "isPureCLIPackage pk =
     (case readPackageJson pk of
        Inl e \<Rightarrow> False
      | Inr pkg \<Rightarrow> objHas pkg ''bin'' \<and> \<not> truthy (objGet pkg ''main'') \<and> \<not> truthy (objGet pkg ''module''))"

text \<open>
  The text of \<open>join(dir, 'package.json')\<close>, for a directory that may be the package
  directory \<open>rootPath\<close>. Two paths name the same directory when they are equal once
  normalized and without a trailing slash.
\<close>

definition directoryOf :: "string \<Rightarrow> string" where
  "directoryOf p = (let q = join [p] in if length q > 1 \<and> last q = CHR ''/'' then butlast q else q)"

definition manifestAt :: "string \<Rightarrow> package \<Rightarrow> string \<Rightarrow> fileText option" where
  "manifestAt rootPath pk dir =
     (if directoryOf dir = directoryOf rootPath then manifest pk
      else map_of (otherManifests pk) (directoryOf dir))"

text \<open>\<open>isPureCLIPackage(dir)\<close> for such a directory.\<close>

definition isPureCLIPackageAt :: "string \<Rightarrow> package \<Rightarrow> string \<Rightarrow> bool" where
  "isPureCLIPackageAt rootPath pk dir = isPureCLIPackage (pk \<lparr> manifest := manifestAt rootPath pk dir \<rparr>)"

text \<open>\<open>getPackageBuilds(rootPath)\<close>.\<close>

definition getPackageBuilds :: "config \<Rightarrow> package \<Rightarrow> error + builds" where
  "getPackageBuilds cfg pk =
     (case readPackageJson pk of
        Inl e \<Rightarrow>
          (case e of
             ConfigurationError m \<Rightarrow> Inl (ConfigurationError m)
           | _ \<Rightarrow> Inl (PackageError ''Failed to determine build configuration''))
      | Inr pkg \<Rightarrow>
          let fs = (case formats cfg of None \<Rightarrow> (FString ''cjs'', FString ''esm'') | Some f \<Rightarrow> f);
              cjs = (case fst fs of FFalse \<Rightarrow> None | FString d \<Rightarrow> Some d
                     | FUndefined \<Rightarrow> Some (getCJSDir cfg));
              esm = (case snd fs of FFalse \<Rightarrow> None | FString d \<Rightarrow> Some d
                     | FUndefined \<Rightarrow> Some (getESMDir cfg));
              esm' = (if truthy (objGet pkg ''bin'') \<and> cjs = None \<and> esm = None
                      then Some (getESMDir cfg) else esm)
          in if cjs = None \<and> esm' = None
             then Inl (ConfigurationError ''No build formats detected in libsync.config.mjs'')
             else Inr \<lparr> b_cjs = cjs, b_esm = esm' \<rparr>)"

text \<open>\<open>getSourcePath(rootPath)\<close>: returned with the listing of the directory.\<close>

definition getSourcePath ::
  "config \<Rightarrow> string \<Rightarrow> package \<Rightarrow> error + (string \<times> (string \<times> node) list)" where
  "getSourcePath cfg rootPath pk =
     (let sourcePath = join [rootPath, getSourceDir cfg]
      in case lookupRel (files pk) (join [getSourceDir cfg]) of
           None \<Rightarrow> Inl (ConfigurationError ''Source directory not found'')
         | Some File \<Rightarrow> Inl (ConfigurationError ''Source path is not a directory'')
         | Some (Dir es) \<Rightarrow> Inr (sourcePath, es))"

section \<open>Manifest Synthesizer and Writer\<close>

text \<open>\<open>convertBinPaths(bin, mode, builds, rootPath)\<close>, called for a truthy \<open>bin\<close>. The schema
  has admitted the manifest by then, so \<open>bin\<close> is a string or an object.\<close>

definition convertBinPath :: "config \<Rightarrow> (string \<times> node) list \<Rightarrow> mode \<Rightarrow> builds \<Rightarrow> string \<Rightarrow> string" where
  "convertBinPath cfg root md blds binPath =
     (if md = Production then convertPathToProduction cfg binPath blds
      else convertPathToDevelopment cfg root binPath)"

definition convertBinPaths :: "config \<Rightarrow> (string \<times> node) list \<Rightarrow> mode \<Rightarrow> builds \<Rightarrow> json \<Rightarrow> json" where
  "convertBinPaths cfg root md blds bin =
     (case bin of
        JString b \<Rightarrow> JString (convertBinPath cfg root md blds b)
      | JObject es \<Rightarrow>
          JObject (fold (\<lambda>(name, binPath) converted.
                      (case binPath of
                         JString b \<Rightarrow> objSet name (JString (convertBinPath cfg root md blds b)) converted
                       | _ \<Rightarrow> converted)) es [])
      | _ \<Rightarrow> bin)"

text \<open>
  \<open>getExports(path)\<close> of \<open>writePackageJson\<close>: the conditional record of one export, its
  properties created in the order \<open>types\<close>, \<open>import\<close>, \<open>require\<close>.
\<close>

definition typesExport :: "config \<Rightarrow> (string \<times> node) list \<Rightarrow> builds \<Rightarrow> string \<Rightarrow> string obj \<Rightarrow> string obj" where
  "typesExport cfg root blds relativePath exportConfig =
     (if b_esm blds \<noteq> None \<and> hasTypesFile root (join [getESMDir cfg, relativePath])
      then objSet ''types'' (''./'' @ join [getESMDir cfg, relativePath] @ ''.d.ts'') exportConfig
      else if b_cjs blds \<noteq> None \<and> hasTypesFile root (join [getCJSDir cfg, relativePath])
      then objSet ''types'' (''./'' @ join [getCJSDir cfg, relativePath] @ ''.d.ts'') exportConfig
      else exportConfig)"

definition getExports ::
  "config \<Rightarrow> (string \<times> node) list \<Rightarrow> mode \<Rightarrow> builds \<Rightarrow> bool \<Rightarrow> string \<Rightarrow> string \<Rightarrow> string obj" where
  "getExports cfg root md blds originalHadTypes sourcePath path =
     (let sourceDir = getSourceDir cfg;
          cjsDir = getCJSDir cfg;
          esmDir = getESMDir cfg;
          relativePath = replaceFirst sourcePath [] (removeExt path);
          willHaveTypesField = originalHadTypes
      in if md = Development then
           let sourceExport = ''./'' @ join [sourceDir, relativePath] @ originalExtension path;
               c1 = (if willHaveTypesField then objSet ''types'' sourceExport [] else []);
               c2 = (if b_esm blds \<noteq> None then objSet ''import'' sourceExport c1 else c1);
               c3 = (if b_cjs blds \<noteq> None then objSet ''require'' sourceExport c2 else c2)
           in c3
         else if md = ProductionTypes then
           let sourceExport = ''./'' @ join [sourceDir, relativePath] @ originalExtension path;
               c1 = (if willHaveTypesField then typesExport cfg root blds relativePath [] else []);
               c2 = (if b_esm blds \<noteq> None then objSet ''import'' sourceExport c1 else c1);
               c3 = (if b_cjs blds \<noteq> None then objSet ''require'' sourceExport c2 else c2)
           in c3
         else
           let esmExt = (if b_esm blds \<noteq> None
                         then getActualFileExtension cfg root (join [esmDir, relativePath]) False
                         else ''.js'');
               cjsExt = (if b_cjs blds \<noteq> None
                         then getActualFileExtension cfg root (join [cjsDir, relativePath]) False
                         else ''.cjs'');
               esmExport = ''./'' @ join [esmDir, relativePath] @ esmExt;
               cjsExport = ''./'' @ join [cjsDir, relativePath] @ cjsExt;
               c1 = (if willHaveTypesField then typesExport cfg root blds relativePath [] else []);
               c2 = (if b_esm blds \<noteq> None then objSet ''import'' esmExport c1 else c1);
               c3 = (if b_cjs blds \<noteq> None then objSet ''require'' cjsExport c2 else c2)
           in c3)"

text \<open>\<open>name === 'index' ? '.' : `./${name.replace(/\/index$/, '')}`\<close>.\<close>

definition exportKey :: "string \<Rightarrow> string" where
  "exportKey name = (if name = ''index'' then ''.'' else ''./'' @ replaceSuffix ''/index'' [] name)"

definition recordJson :: "string obj \<Rightarrow> json" where
  "recordJson exportConfig = JObject (map (\<lambda>(k, v). (k, JString v)) exportConfig)"

definition moduleExports ::
  "config \<Rightarrow> (string \<times> node) list \<Rightarrow> mode \<Rightarrow> builds \<Rightarrow> bool \<Rightarrow> string \<Rightarrow> string obj \<Rightarrow> json obj" where
  "moduleExports cfg root md blds originalHadTypes sourcePath publicFiles =
     fold (\<lambda>(name, path) acc.
             objSet (exportKey name)
               (recordJson (getExports cfg root md blds originalHadTypes sourcePath path)) acc)
          publicFiles []"

text \<open>The assignments to \<open>pkg.main\<close> and \<open>pkg.types\<close> when \<open>'cjs' in builds\<close>.\<close>

definition setMainFields ::
  "config \<Rightarrow> (string \<times> node) list \<Rightarrow> mode \<Rightarrow> bool \<Rightarrow> string \<Rightarrow> json obj \<Rightarrow> json obj" where
  "setMainFields cfg root md originalHadTypes indexExtension pkg =
     (let sourceDir = getSourceDir cfg; cjsDir = getCJSDir cfg
      in if md = Production then
           let cjsIndexExt = getActualFileExtension cfg root (join [cjsDir, ''index'']) False;
               pkg1 = objSet ''main'' (JString (ensureRelativePath (join [cjsDir, ''index'' @ cjsIndexExt]))) pkg
           in if originalHadTypes \<and> hasTypesFile root (join [cjsDir, ''index''])
              then objSet ''types'' (JString (ensureRelativePath (join [cjsDir, ''index.d.ts'']))) pkg1
              else pkg1
         else if md = ProductionTypes then
           let pkg1 = objSet ''main'' (JString (ensureRelativePath (join [sourceDir, ''index'' @ indexExtension]))) pkg
           in if originalHadTypes \<and> hasTypesFile root (join [cjsDir, ''index''])
              then objSet ''types'' (JString (ensureRelativePath (join [cjsDir, ''index.d.ts'']))) pkg1
              else pkg1
         else
           let pkg1 = objSet ''main'' (JString (ensureRelativePath (join [sourceDir, ''index'' @ indexExtension]))) pkg
           in if originalHadTypes
              then objSet ''types'' (JString (ensureRelativePath (join [sourceDir, ''index'' @ indexExtension]))) pkg1
              else pkg1)"

text \<open>The assignments to \<open>pkg.module\<close> and \<open>pkg.types\<close> when \<open>'esm' in builds\<close>.\<close>

definition setModuleFields ::
  "config \<Rightarrow> (string \<times> node) list \<Rightarrow> mode \<Rightarrow> bool \<Rightarrow> string \<Rightarrow> json obj \<Rightarrow> json obj" where
  "setModuleFields cfg root md originalHadTypes indexExtension pkg =
     (let sourceDir = getSourceDir cfg; esmDir = getESMDir cfg
      in if md = Production then
           let esmIndexExt = getActualFileExtension cfg root (join [esmDir, ''index'']) False;
               pkg1 = objSet ''module'' (JString (ensureRelativePath (join [esmDir, ''index'' @ esmIndexExt]))) pkg
           in if originalHadTypes \<and> hasTypesFile root (join [esmDir, ''index''])
              then objSet ''types'' (JString (ensureRelativePath (join [esmDir, ''index.d.ts'']))) pkg1
              else pkg1
         else if md = ProductionTypes then
           let pkg1 = objSet ''module'' (JString (ensureRelativePath (join [sourceDir, ''index'' @ indexExtension]))) pkg
           in if originalHadTypes \<and> hasTypesFile root (join [esmDir, ''index''])
              then objSet ''types'' (JString (ensureRelativePath (join [esmDir, ''index.d.ts'']))) pkg1
              else pkg1
         else
           let pkg1 = objSet ''module'' (JString (ensureRelativePath (join [sourceDir, ''index'' @ indexExtension]))) pkg
           in if originalHadTypes
              then objSet ''types'' (JString (ensureRelativePath (join [sourceDir, ''index'' @ indexExtension]))) pkg1
              else pkg1)"

text \<open>
  The manifest that \<open>writePackageJson\<close> computes from the parsed one, before it is
  compared with the file: the body of the function up to \<open>JSON.stringify\<close>. A
  \<open>ConfigurationError\<close> is thrown on as it is, any other error as a \<open>PackageError\<close>.
\<close>

definition wrapWriteError :: "error \<Rightarrow> error" where
  "wrapWriteError e = (case e of
       ConfigurationError m \<Rightarrow> ConfigurationError m
     | _ \<Rightarrow> PackageError ''Failed to write package.json'')"

definition synthesize ::
  "config \<Rightarrow> string \<Rightarrow> package \<Rightarrow> mode \<Rightarrow> json obj \<Rightarrow> error + json obj" where
  "synthesize cfg rootPath pk md pkg =
     (let originalHadTypes = objHas pkg ''types''
      in case getSourcePath cfg rootPath pk of
           Inl e \<Rightarrow> Inl (wrapWriteError e)
         | Inr (sourcePath, entries) \<Rightarrow>
         (case getPublicFiles cfg (isPureCLIPackageAt rootPath pk (join [sourcePath, ''..'']))
                 sourcePath [] entries of
           Inl e \<Rightarrow> Inl (wrapWriteError e)
         | Inr publicFiles \<Rightarrow>
         (case getPackageBuilds cfg pk of
           Inl e \<Rightarrow> Inl (wrapWriteError e)
         | Inr blds \<Rightarrow>
             let isProduction = (md = Production);
                 indexExtension = getIndexFileExtension cfg (files pk) isProduction;
                 exports = moduleExports cfg (files pk) md blds originalHadTypes sourcePath publicFiles;
                 pkg1 = (if b_cjs blds \<noteq> None
                         then setMainFields cfg (files pk) md originalHadTypes indexExtension pkg
                         else pkg);
                 pkg2 = (if b_esm blds \<noteq> None
                         then setModuleFields cfg (files pk) md originalHadTypes indexExtension pkg1
                         else pkg1);
                 pkg3 = (if truthy (objGet pkg2 ''bin'')
                         then objSet ''bin'' (convertBinPaths cfg (files pk) md blds (the (objGet pkg2 ''bin''))) pkg2
                         else pkg2);
                 pkg4 = objSet ''exports''
                          (JObject (objSpread exports [(''./package.json'', JString ''./package.json'')]))
                          pkg3
             in Inr pkg4)))"

text \<open>
  \<open>writePackageJson(rootPath, mode, checkMode)\<close>: the returned flag and the package
  directory afterwards. A manifest that parses to a primitive value fails at
  \<open>'types' in pkg\<close>; an array has no named property and is refused by the schema.
\<close>

definition writePackageJson ::
  "config \<Rightarrow> string \<Rightarrow> package \<Rightarrow> mode \<Rightarrow> bool \<Rightarrow> error + (bool \<times> package)" where
  "writePackageJson cfg rootPath pk md checkMode =
     (case manifest pk of
        None \<Rightarrow> Inl (PackageError ''Failed to write package.json'')
      | Some NotJson \<Rightarrow> Inl (PackageError ''Failed to write package.json'')
      | Some (JsonText c j) \<Rightarrow>
          (case (case j of JObject fs \<Rightarrow> Some fs | JArray xs \<Rightarrow> Some [] | _ \<Rightarrow> None) of
             None \<Rightarrow> Inl (PackageError ''Failed to write package.json'')
           | Some pkg \<Rightarrow>
               (case synthesize cfg rootPath pk md pkg of
                  Inl e \<Rightarrow> Inl e
                | Inr pkg' \<Rightarrow>
                    let currentContents = JsonText c j;
                        nextContents = JsonText True (JObject pkg');
                        hasChanges = (currentContents \<noteq> nextContents)
                    in if checkMode then Inr (hasChanges, pk)
                       else if \<not> hasChanges then Inr (False, pk)
                       else Inr (False, pk \<lparr> manifest := Some nextContents \<rparr>))))"

text \<open>The properties of the manifest on disk.\<close>

definition manifestFields :: "package \<Rightarrow> json obj" where
  "manifestFields pk = (case manifest pk of Some (JsonText c (JObject fs)) \<Rightarrow> fs | _ \<Rightarrow> [])"

section \<open>Submodule Manifest Generator\<close>

text \<open>\<open>/\/index\.[^/]+$/.test(filePath)\<close>: after the last slash comes \<open>index.\<close> and at least
  one more character.\<close>

definition isDirectoryExport :: "string \<Rightarrow> bool" where
  "isDirectoryExport filePath =
     (let seg = rev (takeWhile (\<lambda>c. c \<noteq> CHR ''/'') (rev filePath))
      in CHR ''/'' \<in> set filePath \<and> startsWith seg ''index.'' \<and> length seg > 6)"

text \<open>\<open>getProxyFolders(rootPath)\<close>: any error of the scan is caught and gives no folder.\<close>

definition getProxyFolders :: "config \<Rightarrow> string \<Rightarrow> package \<Rightarrow> string obj" where
  "getProxyFolders cfg rootPath pk =
     (case getSourcePath cfg rootPath pk of
        Inl e \<Rightarrow> []
      | Inr (sourcePath, entries) \<Rightarrow>
          (case getPublicFiles cfg (isPureCLIPackageAt rootPath pk (join [sourcePath, ''..'']))
                 sourcePath [] entries of
             Inl e \<Rightarrow> []
           | Inr publicFiles \<Rightarrow>
               fold (\<lambda>(name, relativePath) acc. objSet name relativePath acc)
                 (filter (\<lambda>(name, relativePath). name \<noteq> ''index'')
                    (map (\<lambda>(name, filePath).
                            let proxyName = replaceSuffix ''/index'' [] name;
                                relativePath = (if isDirectoryExport filePath
                                                then proxyName @ ''/index'' else name)
                            in (proxyName, relativePath)) publicFiles))
                 []))"

text \<open>\<open>'../'.repeat(moduleName.split('/').length)\<close>.\<close>

definition proxyPrefix :: "string \<Rightarrow> string" where
  "proxyPrefix moduleName = concat (replicate (length (splitSlash moduleName)) ''../'')"

text \<open>\<open>generateProxyPackageJson(rootPath, moduleName, path, mode)\<close>: the object that is
  serialized.\<close>

definition generateProxyPackageJson ::
  "config \<Rightarrow> package \<Rightarrow> string \<Rightarrow> string \<Rightarrow> mode \<Rightarrow> error + json obj" where
  "generateProxyPackageJson cfg pk moduleName path md =
     (case readPackageJson pk of
        Inl e \<Rightarrow> Inl e
      | Inr pkg \<Rightarrow>
     (case getPackageBuilds cfg pk of
        Inl e \<Rightarrow> Inl e
      | Inr blds \<Rightarrow>
          let root = files pk;
              sourceDir = getSourceDir cfg;
              mainDir = getCJSDir cfg;
              moduleDir = getESMDir cfg;
              prefix = proxyPrefix moduleName;
              originalHadTypes = objHas pkg ''types'';
              pkgName = (case objGet pkg ''name'' of Some (JString n) \<Rightarrow> n | _ \<Rightarrow> []);
              proxyPkg = [(''name'', JString (pkgName @ ''/'' @ moduleName)),
                          (''private'', JBool True), (''sideEffects'', JBool False)]
          in if md = Production then
               let p1 = (if b_esm blds \<noteq> None then
                           let esmExt = getActualFileExtension cfg root (join [moduleDir, path]) False;
                               q = objSet ''module'' (JString (join [prefix, moduleDir, path @ esmExt])) proxyPkg
                           in if originalHadTypes \<and> hasTypesFile root (join [moduleDir, path])
                              then objSet ''types'' (JString (join [prefix, moduleDir, path @ ''.d.ts''])) q
                              else q
                         else proxyPkg);
                   p2 = (if b_cjs blds \<noteq> None then
                           let cjsExt = getActualFileExtension cfg root (join [mainDir, path]) False;
                               q = objSet ''main'' (JString (join [prefix, mainDir, path @ cjsExt])) p1
                           in if originalHadTypes \<and> hasTypesFile root (join [mainDir, path])
                              then objSet ''types'' (JString (join [prefix, mainDir, path @ ''.d.ts''])) q
                              else q
                         else p1)
               in Inr p2
             else if md = ProductionTypes then
               let srcExt = getActualFileExtension cfg root path True;
                   srcPath = join [prefix, sourceDir, path @ srcExt];
                   p1 = (if b_cjs blds \<noteq> None then objSet ''main'' (JString srcPath) proxyPkg else proxyPkg);
                   p2 = (if b_esm blds \<noteq> None then objSet ''module'' (JString srcPath) p1 else p1);
                   p3 = (if originalHadTypes then
                           (if b_esm blds \<noteq> None \<and> hasTypesFile root (join [moduleDir, path])
                            then objSet ''types'' (JString (join [prefix, moduleDir, path @ ''.d.ts''])) p2
                            else if b_cjs blds \<noteq> None \<and> hasTypesFile root (join [mainDir, path])
                            then objSet ''types'' (JString (join [prefix, mainDir, path @ ''.d.ts''])) p2
                            else p2)
                         else p2)
               in Inr p3
             else
               let srcExt = getActualFileExtension cfg root path True;
                   srcPath = join [prefix, sourceDir, path @ srcExt];
                   p1 = objSet ''main'' (JString srcPath) proxyPkg;
                   p2 = objSet ''module'' (JString srcPath) p1;
                   p3 = (if originalHadTypes then objSet ''types'' (JString srcPath) p2 else p2)
               in Inr p3))"

section \<open>Build Orchestrator\<close>

text \<open>
  The steps of \<open>buildCommand\<close> that leave the program: removing directories, creating
  directories, the type compiler, the bundler, and writing the ignore file and the
  submodule manifests. Each is given by what it does to the package directory; a step
  that can throw returns the error together with the directory as it left it.
\<close>

record externals =
  removeArtifacts :: "package \<Rightarrow> package"
  makeDirs :: "builds \<Rightarrow> package \<Rightarrow> (error \<times> package) + package"
  shouldGenerateTypes :: "package \<Rightarrow> bool"
  cleanExistingTypes :: "builds \<Rightarrow> package \<Rightarrow> (error \<times> package) + package"
  runTypeScriptCompilation :: "builds \<Rightarrow> package \<Rightarrow> (error \<times> package) + package"
  loadTsupConfiguration :: "builds \<Rightarrow> package \<Rightarrow> (error \<times> package) + package"
  tsupBuild :: "string \<Rightarrow> string \<Rightarrow> package \<Rightarrow> (string \<times> package) + package"
  writeMetadata :: "mode \<Rightarrow> package \<Rightarrow> package"





text \<open>The loop over \<open>Object.entries(builds)\<close>: one bundler run per format, in turn; a
  failure is thrown as a \<open>PackageError\<close> that carries the bundler's message.\<close>

fun tsupBuilds :: "externals \<Rightarrow> (string \<times> string) list \<Rightarrow> package \<Rightarrow> (error \<times> package) + package" where
  "tsupBuilds ext [] pk = Inr pk"
| "tsupBuilds ext ((format, outDir) # rest) pk =
     (case tsupBuild ext format outDir pk of
        Inl (message, pk1) \<Rightarrow> Inl (PackageError (''Failed to build '' @ format @ '' format: '' @ message), pk1)
      | Inr pk1 \<Rightarrow> tsupBuilds ext rest pk1)"





section \<open>Example packages\<close>

definition bothBuilds :: builds where
  "bothBuilds = \<lparr> b_cjs = Some ''cjs'', b_esm = Some ''esm'' \<rparr>"

text \<open>A package whose source directory holds a React component and a script.\<close>

definition tsxFiles :: "(string \<times> node) list" where
  "tsxFiles = [(''src'', Dir [(''App.tsx'', File), (''cli.ts'', File)])]"

text \<open>A command line package: \<open>bin\<close> and neither \<open>main\<close> nor \<open>module\<close>; and its manifest after
  one and after two development-mode writes.\<close>

definition cliPackage :: package where
  "cliPackage = \<lparr> manifest = Some (JsonText True (JObject
       [(''name'', JString ''mycli''), (''bin'', JString ''./src/index.ts'')])),
     files = [(''src'', Dir [(''index.ts'', File), (''util.ts'', File)])],
     otherManifests = [] \<rparr>"

definition cliManifest1 :: json where
  "cliManifest1 = JObject
     [(''name'', JString ''mycli''), (''bin'', JString ''./src/index.ts''),
      (''main'', JString ''./src/index.ts''), (''module'', JString ''./src/index.ts''),
      (''exports'', JObject
         [(''.'', JObject [(''import'', JString ''./src/index.ts''), (''require'', JString ''./src/index.ts'')]),
          (''./package.json'', JString ''./package.json'')])]"

definition cliManifest2 :: json where
  "cliManifest2 = JObject
     [(''name'', JString ''mycli''), (''bin'', JString ''./src/index.ts''),
      (''main'', JString ''./src/index.ts''), (''module'', JString ''./src/index.ts''),
      (''exports'', JObject
         [(''.'', JObject [(''import'', JString ''./src/index.ts''), (''require'', JString ''./src/index.ts'')]),
          (''./util'', JObject [(''import'', JString ''./src/util.ts''), (''require'', JString ''./src/util.ts'')]),
          (''./package.json'', JString ''./package.json'')])]"

text \<open>A library with a \<open>types\<close> field, built in both formats with declaration files.\<close>

definition typedPackage :: package where
  "typedPackage = \<lparr> manifest = Some (JsonText True (JObject
       [(''name'', JString ''lib''), (''types'', JString ''./src/index.ts'')])),
     files = [(''src'', Dir [(''index.ts'', File), (''util.ts'', File)]),
              (''esm'', Dir [(''index.js'', File), (''index.d.ts'', File),
                             (''util.js'', File), (''util.d.ts'', File)]),
              (''cjs'', Dir [(''index.cjs'', File), (''index.d.ts'', File),
                             (''util.cjs'', File), (''util.d.ts'', File)])],
     otherManifests = [] \<rparr>"

definition typedExports :: "json obj" where
  "typedExports =
     [(''.'', JObject [(''types'', JString ''./esm/index.d.ts''),
                       (''import'', JString ''./esm/index.js''),
                       (''require'', JString ''./cjs/index.cjs'')]),
      (''./util'', JObject [(''types'', JString ''./esm/util.d.ts''),
                            (''import'', JString ''./esm/util.js''),
                            (''require'', JString ''./cjs/util.cjs'')]),
      (''./package.json'', JString ''./package.json'')]"

definition typedPackageProduction :: package where
  "typedPackageProduction = typedPackage \<lparr> manifest := Some (JsonText True (JObject
       [(''name'', JString ''lib''), (''types'', JString ''./esm/index.d.ts''),
        (''main'', JString ''./cjs/index.cjs''), (''module'', JString ''./esm/index.js''),
        (''exports'', JObject typedExports)])) \<rparr>"

text \<open>The default configuration with the CJS format switched off, and two packages built
  with it whose ESM entry is \<open>index.mjs\<close>; the first manifest also declares \<open>main\<close>.\<close>

definition esmOnlyConfig :: config where
  "esmOnlyConfig = defaultConfig \<lparr> formats := Some (FFalse, FString ''esm'') \<rparr>"

definition legacyMainPackage :: package where
  "legacyMainPackage = \<lparr> manifest = Some (JsonText True (JObject
       [(''name'', JString ''lib''), (''main'', JString ''./old.js''),
        (''types'', JString ''./src/index.ts'')])),
     files = [(''src'', Dir [(''index.ts'', File)]),
              (''esm'', Dir [(''index.mjs'', File), (''index.d.ts'', File)])],
     otherManifests = [] \<rparr>"

definition legacyMainProduction :: package where
  "legacyMainProduction = legacyMainPackage \<lparr> manifest := Some (JsonText True (JObject
       [(''name'', JString ''lib''), (''main'', JString ''./old.js''),
        (''types'', JString ''./esm/index.d.ts''), (''module'', JString ''./esm/index.mjs''),
        (''exports'', JObject
          [(''.'', JObject [(''types'', JString ''./esm/index.d.ts''), (''import'', JString ''./esm/index.mjs'')]),
           (''./package.json'', JString ''./package.json'')])])) \<rparr>"

definition esmPackage :: package where
  "esmPackage = \<lparr> manifest = Some (JsonText True (JObject
       [(''name'', JString ''lib''), (''types'', JString ''./src/index.ts'')])),
     files = [(''src'', Dir [(''index.ts'', File)]),
              (''esm'', Dir [(''index.mjs'', File), (''index.d.ts'', File)])],
     otherManifests = [] \<rparr>"

definition esmProduction :: package where
  "esmProduction = esmPackage \<lparr> manifest := Some (JsonText True (JObject
       [(''name'', JString ''lib''), (''types'', JString ''./esm/index.d.ts''),
        (''module'', JString ''./esm/index.mjs''),
        (''exports'', JObject
          [(''.'', JObject [(''types'', JString ''./esm/index.d.ts''), (''import'', JString ''./esm/index.mjs'')]),
           (''./package.json'', JString ''./package.json'')])])) \<rparr>"

text \<open>A configuration whose \<open>ignoreExportPaths\<close> is the one path \<open>commands/index.ts\<close>, and a
  source directory with a \<open>commands\<close> directory that holds only that file.\<close>

definition commandsIgnoredConfig :: config where
  "commandsIgnoredConfig = defaultConfig \<lparr> ignoreExportPaths := (\<lambda>p. p = ''commands/index.ts'') \<rparr>"

definition commandsBuildIgnoredConfig :: config where
  "commandsBuildIgnoredConfig = defaultConfig \<lparr> ignoreBuildPaths := (\<lambda>p. p = ''commands/index.ts'') \<rparr>"

definition commandsSource :: "(string \<times> node) list" where
  "commandsSource = [(''index.ts'', File), (''commands'', Dir [(''index.ts'', File)])]"

text \<open>A library that has not been built, a package without a source directory, and a
  bundler that builds the CJS format and fails on the ESM format.\<close>

definition sourceOnlyPackage :: package where
  "sourceOnlyPackage = \<lparr> manifest = Some (JsonText True (JObject
       [(''name'', JString ''lib''), (''types'', JString ''./src/index.ts'')])),
     files = [(''src'', Dir [(''index.ts'', File)])],
     otherManifests = [] \<rparr>"

definition sourceOnlyDevelopment :: json where
  "sourceOnlyDevelopment = JObject
     [(''name'', JString ''lib''), (''types'', JString ''./src/index.ts''),
      (''main'', JString ''./src/index.ts''), (''module'', JString ''./src/index.ts''),
      (''exports'', JObject
         [(''.'', JObject [(''types'', JString ''./src/index.ts''),
                           (''import'', JString ''./src/index.ts''),
                           (''require'', JString ''./src/index.ts'')]),
          (''./package.json'', JString ''./package.json'')])]"



definition afterCjsBuild :: package where
  "afterCjsBuild = \<lparr> manifest = Some (JsonText True sourceOnlyDevelopment),
     files = [(''src'', Dir [(''index.ts'', File)]), (''cjs'', Dir [(''index.cjs'', File)])],
     otherManifests = [] \<rparr>"









section \<open>Properties of objects\<close>

lemma set_insertIndex: "set (insertIndex k v ps) = insert (k, v) (set ps)"
  by (induction ps) (auto split: if_splits)

lemma map_of_insertIndex:
  "k \<notin> fst ` set ps \<Longrightarrow> map_of (insertIndex k v ps) = (map_of ps)(k \<mapsto> v)"
  by (induction ps) (auto simp: fun_upd_twist)

lemma map_of_replace:
  "map_of (map (\<lambda>(k', v'). if k' = k then (k', v) else (k', v')) ob) k' =
     (if k' = k then (if k \<in> fst ` set ob then Some v else None) else map_of ob k')"
  by (induction ob) force+

lemma map_of_append_new:
  "k \<notin> fst ` set ob \<Longrightarrow> map_of (ob @ [(k, v)]) = (map_of ob)(k \<mapsto> v)"
  by (induction ob) (auto simp: fun_upd_twist)

lemma objGet_objSet: "objGet (objSet k v ob) k' = (if k' = k then Some v else objGet ob k')"
  by (auto simp: objGet_def objSet_def objHas_def map_of_replace map_of_insertIndex
        map_of_append_new simp del: map_of_append)

lemma objHas_objGet: "objHas ob k = (objGet ob k \<noteq> None)"
  by (simp add: objHas_def objGet_def map_of_eq_None_iff)

lemma objHas_objSet: "objHas (objSet k v ob) k' = (k' = k \<or> objHas ob k')"
  by (auto simp: objHas_objGet objGet_objSet)

lemma objGet_objDelete: "objGet (objDelete k ob) k' = (if k' = k then None else objGet ob k')"
  unfolding objGet_def objDelete_def by (induction ob) auto

lemma objSet_values: "(k', v') \<in> set (objSet k v ob) \<Longrightarrow> v' = v \<or> (k', v') \<in> set ob"
  by (auto simp: objSet_def set_insertIndex split: if_splits)

lemma keys_replace: "map fst (map (\<lambda>(k', v'). if k' = k then (k', v) else (k', v')) ob) = map fst ob"
  by (induction ob) auto

lemma keys_objSet:
  "\<not> isArrayIndex k \<Longrightarrow>
     map fst (objSet k v ob) = (if objHas ob k then map fst ob else map fst ob @ [k])"
  unfolding objSet_def using keys_replace [of k v ob] by (simp del: map_map)

lemma not_index [simp]:
  "\<not> isArrayIndex ''types''" "\<not> isArrayIndex ''import''" "\<not> isArrayIndex ''require''"
  "\<not> isArrayIndex ''main''" "\<not> isArrayIndex ''module''" "\<not> isArrayIndex ''bin''" "\<not> isArrayIndex ''exports''"
  by (simp_all add: isArrayIndex_def isDigit_def)

lemma objHas_Nil [simp]: "objHas [] k = False"
  by (simp add: objHas_def)

lemma getExports_shape:
  assumes "c = getExports cfg root md blds oht sourcePath path"
  shows "map fst c = filter (objHas c) [''types'', ''import'', ''require'']
     \<and> (objHas c ''types'' \<longrightarrow> oht)
     \<and> objHas c ''import'' = (b_esm blds \<noteq> None)
     \<and> objHas c ''require'' = (b_cjs blds \<noteq> None)"
  unfolding assms getExports_def typesExport_def Let_def
  by (simp add: keys_objSet objHas_objSet)


section \<open>The synthesized fields\<close>

lemma writePackageJson_synthesize:
  assumes "writePackageJson cfg rootPath pk md False = Inr (b, pk')"
  shows "synthesize cfg rootPath pk md (manifestFields pk) = Inr (manifestFields pk')
     \<and> files pk' = files pk \<and> \<not> b"
  using assms unfolding writePackageJson_def manifestFields_def Let_def
  by (auto split: option.splits fileText.splits json.splits sum.splits if_splits)

lemma synthesize_types:
  assumes "synthesize cfg rootPath pk md pkg = Inr pkg'"
      and "getPackageBuilds cfg pk = Inr blds"
  shows "objGet pkg' ''types'' =
     (if objHas pkg ''types'' \<and> b_esm blds \<noteq> None \<and> md = Development
        then Some (JString (ensureRelativePath (join [getSourceDir cfg, ''index'' @ getIndexFileExtension cfg (files pk) False])))
      else if objHas pkg ''types'' \<and> b_esm blds \<noteq> None \<and> hasTypesFile (files pk) (join [getESMDir cfg, ''index''])
        then Some (JString (ensureRelativePath (join [getESMDir cfg, ''index.d.ts''])))
      else if objHas pkg ''types'' \<and> b_cjs blds \<noteq> None \<and> md = Development
        then Some (JString (ensureRelativePath (join [getSourceDir cfg, ''index'' @ getIndexFileExtension cfg (files pk) False])))
      else if objHas pkg ''types'' \<and> b_cjs blds \<noteq> None \<and> hasTypesFile (files pk) (join [getCJSDir cfg, ''index''])
        then Some (JString (ensureRelativePath (join [getCJSDir cfg, ''index.d.ts''])))
      else objGet pkg ''types'')"
  using assms unfolding synthesize_def Let_def setMainFields_def setModuleFields_def
  by (cases md) (auto simp: objGet_objSet split: sum.splits prod.splits if_splits)


lemma synthesize_main:
  assumes "synthesize cfg rootPath pk md pkg = Inr pkg'"
      and "getPackageBuilds cfg pk = Inr blds"
      and "b_cjs blds = None"
  shows "objGet pkg' ''main'' = objGet pkg ''main''"
  using assms unfolding synthesize_def Let_def setModuleFields_def
  by (auto simp: objGet_objSet split: sum.splits prod.splits if_splits)

lemma synthesize_module_production:
  assumes "synthesize cfg rootPath pk Production pkg = Inr pkg'"
      and "getPackageBuilds cfg pk = Inr blds"
      and "b_esm blds \<noteq> None"
  shows "objGet pkg' ''module'' = Some (JString (ensureRelativePath
           (join [getESMDir cfg, ''index'' @ getActualFileExtension cfg (files pk) (join [getESMDir cfg, ''index'']) False])))"
  using assms unfolding synthesize_def Let_def setModuleFields_def
  by (auto simp: objGet_objSet split: sum.splits prod.splits if_splits)

lemma synthesize_builds:
  assumes "synthesize cfg rootPath pk md pkg = Inr pkg'"
  shows "\<exists>blds. getPackageBuilds cfg pk = Inr blds"
  using assms unfolding synthesize_def Let_def
  by (auto split: sum.splits prod.splits)

lemma moduleExports_values_aux:
  assumes "\<forall>(k, v) \<in> set acc. \<exists>path. v = recordJson (getExports cfg root md blds oht sp path)"
      and "(k, v) \<in> set (fold (\<lambda>(name, path) acc.
             objSet (exportKey name) (recordJson (getExports cfg root md blds oht sp path)) acc) pf acc)"
  shows "\<exists>path. v = recordJson (getExports cfg root md blds oht sp path)"
  using assms
proof (induction pf arbitrary: acc)
  case Nil
  then show ?case by auto
next
  case (Cons a pf)
  obtain name path where a: "a = (name, path)" by (cases a)
  show ?case
  proof (rule Cons.IH)
    show "\<forall>(k, v)\<in>set (objSet (exportKey name) (recordJson (getExports cfg root md blds oht sp path)) acc).
        \<exists>path. v = recordJson (getExports cfg root md blds oht sp path)"
      using Cons.prems(1) objSet_values by fastforce
    show "(k, v) \<in> set (fold (\<lambda>(name, path) acc.
             objSet (exportKey name) (recordJson (getExports cfg root md blds oht sp path)) acc) pf
               (objSet (exportKey name) (recordJson (getExports cfg root md blds oht sp path)) acc))"
      using Cons.prems(2) by (simp add: a)
  qed
qed

lemma moduleExports_values:
  assumes "(k, v) \<in> set (moduleExports cfg root md blds oht sp pf)"
  shows "\<exists>path. v = recordJson (getExports cfg root md blds oht sp path)"
  using moduleExports_values_aux [of "[]" cfg root md blds oht sp k v pf] assms
  by (simp add: moduleExports_def)

lemma synthesize_exports:
  assumes "synthesize cfg rootPath pk md pkg = Inr pkg'"
      and "getPackageBuilds cfg pk = Inr blds"
  shows "\<exists>sp pf. objGet pkg' ''exports'' = Some (JObject (objSpread
           (moduleExports cfg (files pk) md blds (objHas pkg ''types'') sp pf)
           [(''./package.json'', JString ''./package.json'')]))"
proof -
  obtain sp entries where g: "getSourcePath cfg rootPath pk = Inr (sp, entries)"
    using assms(1) unfolding synthesize_def Let_def by (auto split: sum.splits)
  obtain pf where p: "getPublicFiles cfg (isPureCLIPackageAt rootPath pk (join [sp, ''..''])) sp [] entries = Inr pf"
    using assms(1) g unfolding synthesize_def Let_def by (auto split: sum.splits)
  have "objGet pkg' ''exports'' = Some (JObject (objSpread
           (moduleExports cfg (files pk) md blds (objHas pkg ''types'') sp pf)
           [(''./package.json'', JString ''./package.json'')]))"
    using assms g p unfolding synthesize_def Let_def by (auto simp: objGet_objSet)
  then show ?thesis by blast
qed


section \<open>Path Converter: the round trip\<close>

text \<open>
  C3. The round trip \<open>toSource(toBuild(p)) = p\<close> is lost on \<open>src/App.tsx\<close>, a source path with
  a recognized extension, under the default configuration with both formats enabled: the
  Extension Resolver reports \<open>.tsx\<close> for \<open>App\<close>, but the conversion to the build path leaves
  the extension \<open>.tsx\<close> in place, and the conversion back then asks the resolver for
  \<open>App.tsx\<close> and appends its fallback \<open>.js\<close>.
\<close>

theorem roundtrip_lost_on_tsx:
  "getActualFileExtension defaultConfig tsxFiles ''App'' True = ''.tsx''
   \<and> convertPathToProduction defaultConfig ''src/App.tsx'' bothBuilds = ''./cjs/App.tsx''
   \<and> convertPathToDevelopment defaultConfig tsxFiles
        (convertPathToProduction defaultConfig ''src/App.tsx'' bothBuilds) = ''./src/App.tsx.js''
   \<and> ensureRelativePath ''src/App.tsx'' = ''./src/App.tsx''"
  by code_simp

section \<open>Manifest Synthesizer\<close>

text \<open>
  C2. In every mode, each entry of the written \<open>exports\<close> map that is a conditional record
  has its properties in the order \<open>types\<close>, \<open>import\<close>, \<open>require\<close>: the list of its keys is
  the list of those three names with the absent ones left out. \<open>types\<close> is present only if
  the original manifest declared \<open>types\<close>, \<open>import\<close> exactly when the ESM format is enabled,
  and \<open>require\<close> exactly when the CJS format is enabled.
\<close>

theorem conditional_exports_field_order:
  assumes "writePackageJson cfg rootPath pk md False = Inr (b, pk')"
      and "getPackageBuilds cfg pk = Inr blds"
      and "objGet (manifestFields pk') ''exports'' = Some (JObject exports)"
      and "(key, JObject conds) \<in> set exports"
  shows "map fst conds = filter (objHas conds) [''types'', ''import'', ''require'']
     \<and> (objHas conds ''types'' \<longrightarrow> objHas (manifestFields pk) ''types'')
     \<and> objHas conds ''import'' = (b_esm blds \<noteq> None)
     \<and> objHas conds ''require'' = (b_cjs blds \<noteq> None)"
proof -
  have s: "synthesize cfg rootPath pk md (manifestFields pk) = Inr (manifestFields pk')"
    using writePackageJson_synthesize [OF assms(1)] by simp
  obtain sp pf where ex: "exports = objSpread
      (moduleExports cfg (files pk) md blds (objHas (manifestFields pk) ''types'') sp pf)
      [(''./package.json'', JString ''./package.json'')]"
    using synthesize_exports [OF s assms(2)] assms(3) by auto
  have "(key, JObject conds) \<in> set (moduleExports cfg (files pk) md blds (objHas (manifestFields pk) ''types'') sp pf)"
    using assms(4) objSet_values [of key "JObject conds" "''./package.json''" "JString ''./package.json''"]
    unfolding ex objSpread_def by auto
  then obtain path where
    f: "JObject conds = recordJson (getExports cfg (files pk) md blds (objHas (manifestFields pk) ''types'') sp path)"
    using moduleExports_values by blast
  define c where "c = getExports cfg (files pk) md blds (objHas (manifestFields pk) ''types'') sp path"
  have fc: "conds = map (\<lambda>(k, v). (k, JString v)) c"
    using f by (simp add: recordJson_def c_def)
  have keys: "map fst conds = map fst c"
    unfolding fc by (induction c) auto
  have has: "objHas conds = objHas c"
    by (rule ext) (simp add: objHas_def keys)
  show ?thesis
    using getExports_shape [OF c_def] by (simp add: keys has)
qed


theorem conditional_exports_field_order_witness:
  "writePackageJson defaultConfig ''/pkg'' typedPackage Production False = Inr (False, typedPackageProduction)
   \<and> getPackageBuilds defaultConfig typedPackage = Inr bothBuilds
   \<and> objGet (manifestFields typedPackageProduction) ''exports'' = Some (JObject typedExports)
   \<and> (''./util'', JObject [(''types'', JString ''./esm/util.d.ts''),
                            (''import'', JString ''./esm/util.js''),
                            (''require'', JString ''./cjs/util.cjs'')]) \<in> set typedExports
   \<and> objHas [(''types'', JString ''./esm/util.d.ts''), (''import'', JString ''./esm/util.js''),
              (''require'', JString ''./cjs/util.cjs'')] ''types''
   \<and> objHas (manifestFields typedPackage) ''types''
   \<and> map fst [(''types'', JString ''./esm/util.d.ts''), (''import'', JString ''./esm/util.js''),
               (''require'', JString ''./cjs/util.cjs'')] = [''types'', ''import'', ''require'']"
proof -
  have h1: "writePackageJson defaultConfig ''/pkg'' typedPackage Production False
              = Inr (False, typedPackageProduction)"
    by code_simp
  have h2: "getPackageBuilds defaultConfig typedPackage = Inr bothBuilds"
    by code_simp
  have h3: "objGet (manifestFields typedPackageProduction) ''exports'' = Some (JObject typedExports)"
    by code_simp
  have h4: "(''./util'', JObject [(''types'', JString ''./esm/util.d.ts''),
                            (''import'', JString ''./esm/util.js''),
                            (''require'', JString ''./cjs/util.cjs'')]) \<in> set typedExports"
    by (simp add: typedExports_def)
  show ?thesis
    using conditional_exports_field_order [OF h1 h2 h3 h4] h1 h2 h3 h4
    by (simp add: objHas_def)
qed

text \<open>
  C4. In every mode, the written manifest has a \<open>types\<close> field only if the original manifest
  declared one, and the field differs from the original only if the original declared
  one. In the \<open>production\<close> and \<open>production-types\<close> modes a changed \<open>types\<close> is the declaration
  file of the ESM or of the CJS index, of an enabled format, and that file exists on disk.
  When both declaration files exist, and the ESM format is enabled, \<open>types\<close> is the ESM one.
\<close>

theorem types_field_only_if_declared_and_built:
  assumes "writePackageJson cfg rootPath pk md False = Inr (b, pk')"
      and "getPackageBuilds cfg pk = Inr blds"
  shows "(objHas (manifestFields pk') ''types'' \<longrightarrow> objHas (manifestFields pk) ''types'')
     \<and> (objGet (manifestFields pk') ''types'' \<noteq> objGet (manifestFields pk) ''types''
          \<longrightarrow> objHas (manifestFields pk) ''types'')
     \<and> (objGet (manifestFields pk') ''types'' \<noteq> objGet (manifestFields pk) ''types'' \<and> md \<noteq> Development
          \<longrightarrow> (b_esm blds \<noteq> None \<and> hasTypesFile (files pk) (join [getESMDir cfg, ''index''])
                \<and> objGet (manifestFields pk') ''types''
                    = Some (JString (ensureRelativePath (join [getESMDir cfg, ''index.d.ts'']))))
             \<or> (b_cjs blds \<noteq> None \<and> hasTypesFile (files pk) (join [getCJSDir cfg, ''index''])
                \<and> objGet (manifestFields pk') ''types''
                    = Some (JString (ensureRelativePath (join [getCJSDir cfg, ''index.d.ts''])))))
     \<and> (md \<noteq> Development \<and> objHas (manifestFields pk) ''types'' \<and> b_esm blds \<noteq> None
          \<and> hasTypesFile (files pk) (join [getCJSDir cfg, ''index''])
          \<and> hasTypesFile (files pk) (join [getESMDir cfg, ''index''])
          \<longrightarrow> objGet (manifestFields pk') ''types''
                = Some (JString (ensureRelativePath (join [getESMDir cfg, ''index.d.ts'']))))"
proof -
  have s: "synthesize cfg rootPath pk md (manifestFields pk) = Inr (manifestFields pk')"
    using writePackageJson_synthesize [OF assms(1)] by simp
  show ?thesis
    using synthesize_types [OF s assms(2)]
    by (auto simp: objHas_objGet split: if_splits)
qed


theorem types_field_only_if_declared_and_built_witness:
  "writePackageJson defaultConfig ''/pkg'' typedPackage Production False = Inr (False, typedPackageProduction)
   \<and> getPackageBuilds defaultConfig typedPackage = Inr bothBuilds
   \<and> objHas (manifestFields typedPackageProduction) ''types''
   \<and> objHas (manifestFields typedPackage) ''types''
   \<and> objGet (manifestFields typedPackageProduction) ''types'' \<noteq> objGet (manifestFields typedPackage) ''types''
   \<and> Production \<noteq> Development
   \<and> b_esm bothBuilds \<noteq> None
   \<and> hasTypesFile (files typedPackage) (join [getCJSDir defaultConfig, ''index''])
   \<and> hasTypesFile (files typedPackage) (join [getESMDir defaultConfig, ''index''])
   \<and> objGet (manifestFields typedPackageProduction) ''types''
        = Some (JString (ensureRelativePath (join [getESMDir defaultConfig, ''index.d.ts''])))"
proof -
  have h1: "writePackageJson defaultConfig ''/pkg'' typedPackage Production False
              = Inr (False, typedPackageProduction)"
    by code_simp
  have h2: "getPackageBuilds defaultConfig typedPackage = Inr bothBuilds"
    by code_simp
  have h3: "objHas (manifestFields typedPackage) ''types''"
    by code_simp
  have h4: "objHas (manifestFields typedPackageProduction) ''types''"
    by code_simp
  have h5: "objGet (manifestFields typedPackageProduction) ''types'' \<noteq> objGet (manifestFields typedPackage) ''types''"
    by code_simp
  have h6: "hasTypesFile (files typedPackage) (join [getCJSDir defaultConfig, ''index''])"
    by code_simp
  have h7: "hasTypesFile (files typedPackage) (join [getESMDir defaultConfig, ''index''])"
    by code_simp
  have h8: "b_esm bothBuilds \<noteq> None"
    by (simp add: bothBuilds_def)
  show ?thesis
    using types_field_only_if_declared_and_built [OF h1 h2] h1 h2 h3 h4 h5 h6 h7 h8
    by simp
qed

text \<open>
  C5, as stated, fails: the configuration enables only the ESM format, the manifest has a
  \<open>types\<close> field, \<open>esm/index.d.ts\<close> and \<open>esm/index.mjs\<close> exist and \<open>esm/index.js\<close> does not,
  and the production manifest still has a \<open>main\<close> field, the one the original manifest
  declared: the synthesizer assigns fields and never removes one.
\<close>

theorem esm_only_keeps_declared_main:
  "formats esmOnlyConfig = Some (FFalse, FString ''esm'')
   \<and> objHas (manifestFields legacyMainPackage) ''types''
   \<and> existsRel (files legacyMainPackage) ''esm/index.d.ts''
   \<and> \<not> existsRel (files legacyMainPackage) ''esm/index.js''
   \<and> existsRel (files legacyMainPackage) ''esm/index.mjs''
   \<and> writePackageJson esmOnlyConfig ''/pkg'' legacyMainPackage Production False
        = Inr (False, legacyMainProduction)
   \<and> objGet (manifestFields legacyMainProduction) ''module'' = Some (JString ''./esm/index.mjs'')
   \<and> objGet (manifestFields legacyMainProduction) ''types'' = Some (JString ''./esm/index.d.ts'')
   \<and> objGet (manifestFields legacyMainProduction) ''main'' = Some (JString ''./old.js'')"
  by code_simp

text \<open>
  C5, amended. When the configuration enables only the ESM format, the ESM directory is
  \<open>esm\<close>, the manifest has a \<open>types\<close> field, \<open>esm/index.d.ts\<close> exists, and \<open>.mjs\<close> is the first
  extension of the resolver's list for which \<open>esm/index\<close> with that extension exists (with
  the default list: \<open>esm/index.mjs\<close> exists and none of \<open>esm/index.js\<close>, \<open>.jsx\<close>, \<open>.ts\<close>,
  \<open>.tsx\<close>, \<open>.cjs\<close> does), then the production manifest has \<open>module = ./esm/index.mjs\<close> and
  \<open>types = ./esm/index.d.ts\<close>, and its \<open>main\<close> field is as in the original manifest: absent
  when the original declared none.
\<close>

theorem esm_only_production_manifest:
  assumes "writePackageJson cfg rootPath pk Production False = Inr (b, pk')"
      and "formats cfg = Some (FFalse, fe)" and "fe \<noteq> FFalse"
      and "getESMDir cfg = ''esm''"
      and "objHas (manifestFields pk) ''types''"
      and "existsRel (files pk) ''esm/index.d.ts''"
      and "find (\<lambda>ext. existsRel (files pk) (join [''esm/index'' @ ext])) (resolverExtensions cfg)
             = Some ''.mjs''"
  shows "objGet (manifestFields pk') ''module'' = Some (JString ''./esm/index.mjs'')
     \<and> objGet (manifestFields pk') ''types'' = Some (JString ''./esm/index.d.ts'')
     \<and> objGet (manifestFields pk') ''main'' = objGet (manifestFields pk) ''main''"
proof -
  have s: "synthesize cfg rootPath pk Production (manifestFields pk) = Inr (manifestFields pk')"
    using writePackageJson_synthesize [OF assms(1)] by simp
  obtain blds where bl: "getPackageBuilds cfg pk = Inr blds"
    using synthesize_builds [OF s] by blast
  have c: "b_cjs blds = None" and e: "b_esm blds \<noteq> None"
    using bl assms(2,3) unfolding getPackageBuilds_def Let_def
    by (auto split: sum.splits error.splits fmt.splits if_splits)
  note d = assms(4)
  have j1: "join [''esm'', ''index''] = ''esm/index''" and j2: "join [''esm'', ''index.d.ts''] = ''esm/index.d.ts''"
    and j3: "join [''esm'', ''index.mjs''] = ''esm/index.mjs''"
    by (simp_all add: join_def normalize_def)
  have j4: "join [''esm/index.d.ts''] = ''esm/index.d.ts''" by (simp add: join_def normalize_def)
  have x: "getActualFileExtension cfg (files pk) ''esm/index'' False = ''.mjs''"
    using assms(7) by (simp add: getActualFileExtension_def)
  have t: "hasTypesFile (files pk) ''esm/index''"
    using assms(6) by (simp add: hasTypesFile_def j4)
  have m: "objGet (manifestFields pk') ''module'' = Some (JString ''./esm/index.mjs'')"
    using synthesize_module_production [OF s bl e] by (simp add: d j1 x j3 ensureRelativePath_def startsWith_def)
  have ty: "objGet (manifestFields pk') ''types'' = Some (JString ''./esm/index.d.ts'')"
    using synthesize_types [OF s bl] e t assms(5) by (simp add: d j1 j2 ensureRelativePath_def startsWith_def)
  show ?thesis using m ty synthesize_main [OF s bl c] by simp
qed

text \<open>The package \<open>esmPackage\<close> under the default configuration with the CJS format switched
  off, as the loader gives it.\<close>

theorem esm_only_production_manifest_witness:
  "writePackageJson esmOnlyConfig ''/pkg'' esmPackage Production False = Inr (False, esmProduction)
   \<and> formats esmOnlyConfig = Some (FFalse, FString ''esm'') \<and> FString ''esm'' \<noteq> FFalse
   \<and> directories_esm esmOnlyConfig = Some ''esm''
   \<and> files_extensions esmOnlyConfig
        = Some [''.js'', ''.jsx'', ''.ts'', ''.tsx'', ''.cjs'', ''.mjs'', ''.cts'', ''.mts'', ''.json'']
   \<and> getESMDir esmOnlyConfig = ''esm''
   \<and> objHas (manifestFields esmPackage) ''types''
   \<and> existsRel (files esmPackage) ''esm/index.d.ts''
   \<and> find (\<lambda>ext. existsRel (files esmPackage) (join [''esm/index'' @ ext])) (resolverExtensions esmOnlyConfig)
        = Some ''.mjs''
   \<and> objGet (manifestFields esmProduction) ''module'' = Some (JString ''./esm/index.mjs'')
   \<and> objGet (manifestFields esmProduction) ''types'' = Some (JString ''./esm/index.d.ts'')
   \<and> objGet (manifestFields esmProduction) ''main'' = None"
proof -
  have h1: "writePackageJson esmOnlyConfig ''/pkg'' esmPackage Production False = Inr (False, esmProduction)"
    by code_simp
  have h2: "formats esmOnlyConfig = Some (FFalse, FString ''esm'')"
    by code_simp
  have h3: "FString ''esm'' \<noteq> FFalse"
    by simp
  have h4: "getESMDir esmOnlyConfig = ''esm''"
    by code_simp
  have h5: "objHas (manifestFields esmPackage) ''types''"
    by code_simp
  have h6: "existsRel (files esmPackage) ''esm/index.d.ts''"
    by code_simp
  have h7: "find (\<lambda>ext. existsRel (files esmPackage) (join [''esm/index'' @ ext]))
        (resolverExtensions esmOnlyConfig) = Some ''.mjs''"
    by code_simp
  have c1: "directories_esm esmOnlyConfig = Some ''esm''"
    by code_simp
  have c2: "files_extensions esmOnlyConfig
        = Some [''.js'', ''.jsx'', ''.ts'', ''.tsx'', ''.cjs'', ''.mjs'', ''.cts'', ''.mts'', ''.json'']"
    by code_simp
  have m: "objGet (manifestFields esmPackage) ''main'' = None"
    by code_simp
  show ?thesis
    using esm_only_production_manifest [OF h1 h2 h3 h4 h5 h6 h7] h1 h2 h4 h5 h6 h7 c1 c2 m
    by simp
qed

section \<open>Manifest Writer: idempotence\<close>

text \<open>The Writer writes nothing when the manifest it computes is the file as it stands.\<close>

lemma writePackageJson_no_write_when_equal:
  assumes "manifest pk = Some (JsonText True (JObject pkg))"
      and "synthesize cfg rootPath pk md pkg = Inr pkg"
  shows "writePackageJson cfg rootPath pk md False = Inr (False, pk)"
  using assms by (simp add: writePackageJson_def)

text \<open>
  C1. Synthesis is not idempotent on a command line package, one whose manifest has
  \<open>bin\<close> and neither \<open>main\<close> nor \<open>module\<close>. The first development-mode write scans only the
  index file, and adds \<open>main\<close> and \<open>module\<close>; by that the package stops being a command
  line package, so the second write, with no other change on disk, scans the whole
  source directory, computes a different manifest (a further export \<open>./util\<close>) and writes
  again.
\<close>

theorem second_write_differs_for_cli_package:
  "isPureCLIPackage cliPackage
   \<and> writePackageJson defaultConfig ''/pkg'' cliPackage Development False
        = Inr (False, cliPackage \<lparr> manifest := Some (JsonText True cliManifest1) \<rparr>)
   \<and> \<not> isPureCLIPackage (cliPackage \<lparr> manifest := Some (JsonText True cliManifest1) \<rparr>)
   \<and> writePackageJson defaultConfig ''/pkg'' (cliPackage \<lparr> manifest := Some (JsonText True cliManifest1) \<rparr>)
        Development False
        = Inr (False, cliPackage \<lparr> manifest := Some (JsonText True cliManifest2) \<rparr>)
   \<and> cliManifest2 \<noteq> cliManifest1
   \<and> writePackageJson defaultConfig ''/pkg'' (cliPackage \<lparr> manifest := Some (JsonText True cliManifest1) \<rparr>)
        Development True = Inr (True, cliPackage \<lparr> manifest := Some (JsonText True cliManifest1) \<rparr>)"
  by code_simp

section \<open>Source Tree Scanner: empty directories\<close>

text \<open>A source root without an eligible entry is an error; a subdirectory without one
  gives the empty map, in both scans.\<close>

lemma getPublicFiles_empty_root:
  assumes "\<not> pureCLI"
      and "filter (\<lambda>(filename, n). shouldExport cfg filename n []) entries = []"
  shows "getPublicFiles cfg pureCLI sourcePath [] entries
           = Inl (ConfigurationError ''No valid source files found'')"
  using assms by (simp add: sort_key_def)

lemma getAllBuildFiles_empty_root:
  assumes "\<not> pureCLI"
      and "filter (\<lambda>(filename, n). shouldBuild cfg filename n []) entries = []"
  shows "getAllBuildFiles cfg pureCLI sourcePath [] entries
           = Inl (ConfigurationError ''No valid source files found'')"
  using assms by (simp add: sort_key_def)

lemma getAllBuildFiles_empty_subdirectory:
  assumes "prefix \<noteq> []"
      and "filter (\<lambda>(filename, n). shouldBuild cfg filename n prefix) entries = []"
  shows "getAllBuildFiles cfg pureCLI sourcePath prefix entries = Inr []"
  using assms by (simp add: sort_key_def)

lemma getPublicFiles_empty_subdirectory:
  assumes "prefix \<noteq> []"
      and "filter (\<lambda>(filename, n). shouldExport cfg filename n prefix) entries = []"
  shows "getPublicFiles cfg pureCLI sourcePath prefix entries = Inr []"
  using assms by (simp add: sort_key_def)

text \<open>
  C7. An eligible subdirectory without an eligible file is not always absent from the
  export map. The scan of the subdirectory returns the empty map and raises nothing, and
  the build-file map has no entry for it; but the parent looks for an index file in the
  unfiltered listing of the subdirectory, so a subdirectory \<open>commands\<close> whose only file
  is an ignored \<open>index.ts\<close> (ignored for the build, or for the exports only) is
  exported under the key \<open>commands\<close>, mapped to the ignored file.
\<close>

theorem ignored_index_still_exported:
  "shouldBuild commandsBuildIgnoredConfig ''commands'' (Dir [(''index.ts'', File)]) []
   \<and> filter (\<lambda>(filename, n). shouldBuild commandsBuildIgnoredConfig filename n ''commands'')
        [(''index.ts'', File)] = []
   \<and> filter (\<lambda>(filename, n). shouldExport commandsBuildIgnoredConfig filename n ''commands'')
        [(''index.ts'', File)] = []
   \<and> getAllBuildFiles commandsBuildIgnoredConfig False ''/pkg/src'' [] commandsSource
        = Inr [(''index'', ''/pkg/src/index.ts'')]
   \<and> getPublicFiles commandsBuildIgnoredConfig False ''/pkg/src/commands'' ''commands''
        [(''index.ts'', File)] = Inr []
   \<and> getPublicFiles commandsBuildIgnoredConfig False ''/pkg/src'' [] commandsSource
        = Inr [(''commands'', ''/pkg/src/commands/index.ts''), (''index'', ''/pkg/src/index.ts'')]
   \<and> shouldExport commandsIgnoredConfig ''commands'' (Dir [(''index.ts'', File)]) []
   \<and> filter (\<lambda>(filename, n). shouldExport commandsIgnoredConfig filename n ''commands'')
        [(''index.ts'', File)] = []
   \<and> getPublicFiles commandsIgnoredConfig False ''/pkg/src/commands'' ''commands''
        [(''index.ts'', File)] = Inr []
   \<and> getPublicFiles commandsIgnoredConfig False ''/pkg/src'' [] commandsSource
        = Inr [(''commands'', ''/pkg/src/commands/index.ts''), (''index'', ''/pkg/src/index.ts'')]"
  by code_simp

section \<open>Source Tree Scanner: the order of a listing\<close>

lemma insort_key_map_fst:
  assumes "\<And>x. fst (g x) = fst x"
  shows "insort_key fst (g x) (map g xs) = map g (insort_key fst x xs)"
  using assms by (induction xs) simp_all

lemma sort_key_map_fst:
  assumes "\<And>x. fst (g x) = fst x"
  shows "sort_key fst (map g xs) = map g (sort_key fst xs)"
proof (induction xs)
  case Nil
  then show ?case by simp
next
  case (Cons x xs)
  then show ?case using insort_key_map_fst [of g, OF assms] by simp
qed

lemma sortEntries_map:
  "sortEntries es = map (\<lambda>(name, n). (name, sortListing n)) (sort_key fst es)"
  unfolding sortEntries_def by (rule sort_key_map_fst) (simp add: case_prod_beta)


lemma isDirectory_sortListing [simp]: "isDirectory (sortListing n) = isDirectory n"
  by (cases n) (simp_all add: isDirectory_def)

lemma shouldExport_sortListing [simp]:
  "shouldExport cfg f (sortListing n) P = shouldExport cfg f n P"
  by (simp add: shouldExport_def)

lemma shouldBuild_sortListing [simp]:
  "shouldBuild cfg f (sortListing n) P = shouldBuild cfg f n P"
  by (simp add: shouldBuild_def)















text \<open>Listings that name every entry once and hold the same entries have the same sorted
  form.\<close>

lemma map_insort_key: "map f (insort_key f x xs) = insort (f x) (map f xs)"
  by (induction xs) simp_all

lemma map_sort_key: "map f (sort_key f xs) = sort (map f xs)"
  by (induction xs) (simp_all add: map_insort_key)

lemma same_keys_same_entries:
  assumes "map fst xs = map fst ys" and "set xs = set ys" and "distinct (map fst xs)"
  shows "xs = ys"
proof -
  have "length xs = length ys" using assms(1) by (rule map_eq_imp_length_eq)
  then show ?thesis using assms
  proof (induction xs ys rule: list_induct2)
    case Nil
    then show ?case by simp
  next
    case (Cons x xs y ys)
    have k: "fst x = fst y" and t: "map fst xs = map fst ys" using Cons.prems(1) by simp_all
    have "y \<in> set (x # xs)" using Cons.prems(2) by auto
    moreover have "x \<in> set (x # xs)" by simp
    ultimately have xy: "x = y"
      using Cons.prems(3) k eq_key_imp_eq_value [of "x # xs" "fst x" "snd x" "snd y"]
      by (metis prod.collapse)
    have dx: "distinct (map fst xs)" and nx: "fst x \<notin> fst ` set xs" using Cons.prems(3) by simp_all
    have ny: "fst y \<notin> fst ` set ys" using nx k t by (metis set_map)
    have "x \<notin> set xs" using nx by force
    moreover have "y \<notin> set ys" using ny by force
    ultimately have "set xs = set ys" using Cons.prems(2) xy by auto
    then show ?case using Cons.IH [OF t _ dx] xy by simp
  qed
qed

lemma sortEntries_permutation:
  assumes "distinct (map fst es1)" and "distinct (map fst es2)" and "set es1 = set es2"
  shows "sortEntries es1 = sortEntries es2"
proof -
  let ?xs = "sort_key fst es1" and ?ys = "sort_key fst es2"
  have s: "set (map fst es1) = set (map fst es2)" using assms(3) by simp
  have "sort (map fst es1) = sort (map fst es2)"
    using assms(1,2) s by (intro sorted_distinct_set_unique) simp_all
  then have m: "map fst ?xs = map fst ?ys" by (simp add: map_sort_key)
  have d: "distinct (map fst ?xs)" using assms(1) by (simp add: map_sort_key)
  have "?xs = ?ys"
    using m _ d by (rule same_keys_same_entries) (simp add: assms(3))
  then show ?thesis by (simp add: sortEntries_map)
qed




section \<open>Submodule Manifest Generator: the types of a submodule\<close>

text \<open>
  C8. In production mode the manifest of a submodule does not name the target the root
  manifest uses. For a package built in both formats whose manifest declares types, the
  root manifest and its export \<open>./util\<close> take the types from the ESM directory
  (\<open>./esm/util.d.ts\<close>), and so does the submodule manifest of the production-types mode
  (\<open>../esm/util.d.ts\<close>); the production submodule manifest sets the ESM path and then
  overwrites it with the CJS one, \<open>../cjs/util.d.ts\<close>.
\<close>

theorem proxy_types_prefer_cjs_in_production:
  "getProxyFolders defaultConfig ''/pkg'' typedPackage = [(''util'', ''util'')]
   \<and> generateProxyPackageJson defaultConfig typedPackage ''util'' ''util'' Production
        = Inr [(''name'', JString ''lib/util''), (''private'', JBool True), (''sideEffects'', JBool False),
               (''module'', JString ''../esm/util.js''), (''types'', JString ''../cjs/util.d.ts''),
               (''main'', JString ''../cjs/util.cjs'')]
   \<and> writePackageJson defaultConfig ''/pkg'' typedPackage Production False = Inr (False, typedPackageProduction)
   \<and> objGet (manifestFields typedPackageProduction) ''types'' = Some (JString ''./esm/index.d.ts'')
   \<and> objGet typedExports ''./util''
        = Some (JObject [(''types'', JString ''./esm/util.d.ts''), (''import'', JString ''./esm/util.js''),
                         (''require'', JString ''./cjs/util.cjs'')])
   \<and> generateProxyPackageJson defaultConfig typedPackage ''util'' ''util'' ProductionTypes
        = Inr [(''name'', JString ''lib/util''), (''private'', JBool True), (''sideEffects'', JBool False),
               (''main'', JString ''../src/util.ts''), (''module'', JString ''../src/util.ts''),
               (''types'', JString ''../esm/util.d.ts'')]"
  by code_simp

section \<open>Build Orchestrator: failure\<close>















text \<open>A failing bundler run is a failing step, and the error thrown carries its message.\<close>

lemma tsupBuilds_failure:
  assumes "tsupBuilds ext bs pk = Inl (e, pk1)"
  shows "\<exists>format outDir message pk0. (format, outDir) \<in> set bs
     \<and> tsupBuild ext format outDir pk0 = Inl (message, pk1)
     \<and> e = PackageError (''Failed to build '' @ format @ '' format: '' @ message)"
  using assms
proof (induction bs arbitrary: pk)
  case Nil
  then show ?case by simp
next
  case (Cons a bs)
  obtain format outDir where a: "a = (format, outDir)" by (cases a)
  show ?case
  proof (cases "tsupBuild ext format outDir pk")
    case (Inl f)
    then show ?thesis using Cons.prems a by (cases f) auto
  next
    case (Inr pk')
    then have "tsupBuilds ext bs pk' = Inl (e, pk1)" using Cons.prems a by simp
    from Cons.IH [OF this] show ?thesis by auto
  qed
qed




section \<open>Source Tree Scanner: directories with an index file\<close>

text \<open>
  C6. A directory whose index file is \<open>index.tsx\<close> is not collapsed. The file is eligible for
  the build and for the exports, and for the index file of the source root the extension
  is recognized; but the scanner finds the index file of a subdirectory by the four names
  \<open>index.ts\<close>, \<open>index.js\<close>, \<open>index.cjs\<close> and \<open>index.mjs\<close>, not by the configured
  extensions. So the export map of the scanner has the key \<open>foo/index\<close> and no key \<open>foo\<close>,
  where the same directory with \<open>index.ts\<close> gives the key \<open>foo\<close>. A second input on which
  the map is not as claimed: beside a directory \<open>foo\<close> with \<open>index.ts\<close> lies a file
  \<open>foo.ts\<close>, which is folded after the directory and takes the key \<open>foo\<close>.
\<close>

theorem index_tsx_not_collapsed:
  "shouldBuild defaultConfig ''foo'' (Dir [(''index.tsx'', File)]) []
   \<and> shouldBuild defaultConfig ''index.tsx'' File ''foo''
   \<and> shouldExport defaultConfig ''index.tsx'' File ''foo''
   \<and> getIndexFileExtension defaultConfig [(''src'', Dir [(''index.tsx'', File)])] False = ''.tsx''
   \<and> getPublicFiles defaultConfig False ''/pkg/src'' [] [(''foo'', Dir [(''index.tsx'', File)])]
      = Inr [(''foo/index'', ''/pkg/src/foo/index.tsx'')]
   \<and> getPublicFiles defaultConfig False ''/pkg/src'' [] [(''foo'', Dir [(''index.ts'', File)])]
      = Inr [(''foo'', ''/pkg/src/foo/index.ts'')]
   \<and> shouldBuild defaultConfig ''index.ts'' File ''foo''
   \<and> getPublicFiles defaultConfig False ''/pkg/src'' []
        [(''foo'', Dir [(''index.ts'', File)]), (''foo.ts'', File)]
      = Inr [(''foo'', ''/pkg/src/foo.ts'')]"
  by code_simp

end
